theory Spec2Isabelle
  imports Complex_Main "HOL-Library.Multiset"
begin

section \<open>Numbers, errors and random keys\<close>

text \<open>
  The arrays of the program hold floating-point numbers. They are modelled by the real
  numbers extended with the two infinities that the code writes itself (\<open>-jnp.inf\<close> for the
  sentinels of the best-results pool, \<open>np.inf\<close> for uncapped and masked distances). Rounding
  and NaN are outside the model.
\<close>

datatype xreal = MInf | Fin real | PInf

instantiation xreal :: "{linorder, uminus}"
begin

fun less_eq_xreal :: "xreal \<Rightarrow> xreal \<Rightarrow> bool" where
  "less_eq_xreal MInf y = True"
| "less_eq_xreal (Fin a) MInf = False"
| "less_eq_xreal (Fin a) (Fin b) = (a \<le> b)"
| "less_eq_xreal (Fin a) PInf = True"
| "less_eq_xreal PInf MInf = False"
| "less_eq_xreal PInf (Fin b) = False"
| "less_eq_xreal PInf PInf = True"

definition less_xreal :: "xreal \<Rightarrow> xreal \<Rightarrow> bool" where
  "less_xreal x y = (x \<le> y \<and> \<not> y \<le> x)"

fun uminus_xreal :: "xreal \<Rightarrow> xreal" where
  "uminus_xreal MInf = PInf"
| "uminus_xreal (Fin a) = Fin (- a)"
| "uminus_xreal PInf = MInf"

instance
proof
  fix x y z :: xreal
  show "(x < y) = (x \<le> y \<and> \<not> y \<le> x)"
    by (simp add: less_xreal_def)
  show "x \<le> x"
    by (cases x) simp_all
  show "x \<le> y \<Longrightarrow> y \<le> z \<Longrightarrow> x \<le> z"
    by (cases x; cases y; cases z) simp_all
  show "x \<le> y \<Longrightarrow> y \<le> x \<Longrightarrow> x = y"
    by (cases x; cases y) simp_all
  show "x \<le> y \<or> y \<le> x"
    by (cases x; cases y) auto
qed

end

text \<open>\<open>c - d\<close> for a finite constant \<open>c\<close>, as in \<open>-1e12 - distance\<close>.\<close>

fun fin_minus :: "real \<Rightarrow> xreal \<Rightarrow> xreal" where
  "fin_minus c MInf = PInf"
| "fin_minus c (Fin d) = Fin (c - d)"
| "fin_minus c PInf = MInf"

text \<open>The exceptions the modelled code can raise.\<close>

datatype error =
  ValueError string
| ZeroDivisionError
| ZeroSizeReduction
| ShapeError
| TypeError
| IndexError
| AttributeError

text \<open>
  A JAX random key is known by the way it was derived: \<open>jax.random.PRNGKey(n)\<close>, or the
  \<open>i\<close>-th key of a \<open>jax.random.split\<close> of another key.
\<close>

datatype key = PRNGKey int | Split key nat

definition random_split :: "key \<Rightarrow> nat \<Rightarrow> key list" where
  "random_split k num = map (Split k) [0..<num]"

section \<open>TrustRegion\<close>

text \<open>
  \<open>converters.NumpyArraySpec\<close> is declared outside the sources at hand; the trust region
  reads its \<open>type\<close> and its \<open>num_dimensions\<close> only.
\<close>

datatype NumpyArraySpecType = CONTINUOUS | DISCRETE | ONEHOT_EMBEDDING

record NumpyArraySpec =
  spec_type :: NumpyArraySpecType
  num_dimensions :: nat

record TrustRegion =
  trusted :: "real list list"
  dof :: nat
  trust_radius :: real
  feature_is_missing :: "bool list option"
  observations_is_missing :: "bool list option"
  max_distances :: "xreal list"

text \<open>
  \<open>TrustRegion._compute_trust_radius\<close>; \<open>trusted.shape[0]\<close> is the number of trusted rows.
\<close>

definition compute_trust_radius :: "nat \<Rightarrow> real list list \<Rightarrow> real" where
  "compute_trust_radius n_dof trusted0 =
     (let min_radius = 0.2;
          dimension_factor = 5.0;
          trust_level =
            (0.1 * real (length trusted0) + 0.9 * real (length trusted0))
              / (dimension_factor * (real n_dof + 1))
      in min_radius + (0.5 - min_radius) * trust_level)"

text \<open>The loop of \<open>TrustRegion.__init__\<close> that caps the one-hot dimensions.\<close>

fun spec_max_distance :: "real \<Rightarrow> NumpyArraySpec list \<Rightarrow> xreal list" where
  "spec_max_distance r [] = []"
| "spec_max_distance r (spec # specs) =
     (if spec_type spec = ONEHOT_EMBEDDING
      then replicate (num_dimensions spec) (Fin r) @ spec_max_distance r specs
      else PInf # spec_max_distance r specs)"

definition TrustRegion_init ::
  "real list list \<Rightarrow> NumpyArraySpec list \<Rightarrow> bool list option \<Rightarrow> bool list option \<Rightarrow> TrustRegion"
where
  "TrustRegion_init trusted0 specs fim oim =
     (let n_dof = length specs;
          radius = compute_trust_radius n_dof trusted0;
          max_distance = spec_max_distance radius specs;
          max_distance' =
            (case fim of
               None \<Rightarrow> max_distance
             | Some m \<Rightarrow> max_distance @ replicate (length m - length max_distance) (Fin 0))
      in \<lparr> trusted = trusted0, dof = n_dof, trust_radius = radius,
           feature_is_missing = fim, observations_is_missing = oim,
           max_distances = max_distance' \<rparr>)"

text \<open>\<open>jnp.where(mask, 0.0, row)\<close> on one row, the mask running over the columns.\<close>

definition where_mask :: "bool list \<Rightarrow> real list \<Rightarrow> real list" where
  "where_mask m row = map2 (\<lambda>b v. if b then 0 else v) m row"

text \<open>
  \<open>TrustRegion.min_linf_distance\<close>. An array of shape \<open>(N, D)\<close> is the list of its \<open>N\<close> rows.
  The shapes are those of the docstrings: \<open>xs\<close> is \<open>(M, D)\<close>, the trusted rows \<open>(N, D)\<close>, the
  feature mask \<open>(D,)\<close>, the observation mask \<open>(N,)\<close>, where \<open>D\<close> is the length of
  \<open>_max_distances\<close>; any other shape is reported as \<open>ShapeError\<close> (numpy would moreover
  stretch an axis of length one). \<open>jnp.max\<close> and \<open>jnp.min\<close> raise on an axis of length zero.
\<close>

definition min_linf_distance :: "TrustRegion \<Rightarrow> real list list \<Rightarrow> error + xreal list" where
  "min_linf_distance tr xs =
     (let D = length (max_distances tr) in
      if \<not> list_all (\<lambda>t. length t = D) (trusted tr)
         \<or> \<not> list_all (\<lambda>x. length x = D) xs
         \<or> (case feature_is_missing tr of None \<Rightarrow> False | Some m \<Rightarrow> length m \<noteq> D)
         \<or> (case observations_is_missing tr of
               None \<Rightarrow> False
             | Some om \<Rightarrow> length om \<noteq> length (trusted tr))
      then Inl ShapeError
      else if D = 0 \<or> trusted tr = [] then Inl ZeroSizeReduction
      else
        let mask = (\<lambda>row. case feature_is_missing tr of
                             None \<Rightarrow> row
                           | Some m \<Rightarrow> where_mask m row);
            trusted' = map mask (trusted tr);
            xs' = map mask xs;
            distances =
              map (\<lambda>x. map (\<lambda>t. map2 (\<lambda>ti xi. Fin \<bar>ti - xi\<bar>) t x) trusted') xs';
            distances' =
              (case observations_is_missing tr of
                 None \<Rightarrow> distances
               | Some om \<Rightarrow>
                   map (\<lambda>dn. map2 (\<lambda>miss d. if miss then map (\<lambda>_. PInf) d else d) om dn)
                     distances);
            distances_bounded =
              map (map (\<lambda>d. map2 min d (max_distances tr))) distances';
            linf_distance = map (map (\<lambda>d. Max (set d))) distances_bounded
        in Inr (map (\<lambda>dn. Min (set dn)) linf_distance))"

section \<open>VectorizedOptimizer\<close>

record VectorizedStrategyResults =
  features :: "real list list"
  rewards :: "xreal list"

text \<open>The abstract class \<open>VectorizedStrategy\<close>: a strategy is given by its three methods.\<close>

record 's VectorizedStrategy =
  init_state :: "key \<Rightarrow> real list list option \<Rightarrow> xreal list option \<Rightarrow> 's"
  suggest :: "'s \<Rightarrow> key \<Rightarrow> real list list"
  update :: "'s \<Rightarrow> real list list \<Rightarrow> xreal list \<Rightarrow> key \<Rightarrow> 's"

text \<open>
  The converter is a collaborator declared outside the sources at hand. \<open>is_padded\<close> is
  \<open>isinstance(converter, converters.PaddedTrialToArrayConverter)\<close>, \<open>to_features\<close> gives the
  rows of the feature array (of \<open>.padded_array\<close> for a padded converter), and \<open>n_columns\<close>
  is \<open>converter.to_features([]).shape[-1]\<close>.
\<close>

record ('t, 'p) ArrayConverter =
  is_padded :: bool
  to_features :: "'t list \<Rightarrow> real list list"
  to_parameters :: "real list list \<Rightarrow> 'p list"
  output_specs :: "NumpyArraySpec list"
  n_columns :: nat

text \<open>
  A trial as \<open>_best_candidates\<close> builds it: its parameters, and the measurement that
  \<open>trial.complete\<close> stores (the metrics of a \<open>vz.Measurement\<close> by name). The time stamps
  that the constructors of pyvizier add are not modelled.
\<close>

record 'p Trial =
  parameters :: 'p
  final_measurement :: "(string \<times> xreal) list option"

record ('t, 'p, 's) VectorizedOptimizer =
  strategy_factory :: "('t, 'p) ArrayConverter \<Rightarrow> int \<Rightarrow> 's VectorizedStrategy"
  suggestion_batch_size :: int
  max_evaluations :: int
  jit_loop :: bool

text \<open>\<open>jax.jit\<close> compiles a pure function and keeps its meaning.\<close>

definition jit :: "'a \<Rightarrow> 'a" where
  "jit f = f"

text \<open>\<open>jnp.argsort\<close>: the stable sort of the indices by their values.\<close>

definition argsort :: "xreal list \<Rightarrow> nat list" where
  "argsort a = sort_key (\<lambda>i. a ! i) [0..<length a]"

text \<open>
  \<open>jnp.argpartition(a, kth)\<close> raises when \<open>kth\<close> is not an index of \<open>a\<close>; a negative \<open>kth\<close>
  counts from the end. JAX computes it with \<open>lax.top_k\<close>: the indices of the \<open>kth + 1\<close>
  smallest values come first, in increasing order of value and of index among equal
  values, then the other indices in increasing order.
\<close>

definition argpartition :: "xreal list \<Rightarrow> int \<Rightarrow> error + nat list" where
  "argpartition a kth =
     (let n = int (length a) in
      if kth < - n \<or> n \<le> kth then Inl (ValueError ''kth out of bounds'')
      else
        let k = nat (if kth < 0 then kth + n else kth);
            s = argsort a
        in Inr (take (Suc k) s @ sort (drop (Suc k) s)))"

text \<open>The Python slice \<open>xs[:c]\<close>: a negative \<open>c\<close> counts from the end.\<close>

definition slice_to :: "'a list \<Rightarrow> int \<Rightarrow> 'a list" where
  "slice_to xs c = (if 0 \<le> c then take (nat c) xs else take (nat (int (length xs) + c)) xs)"

text \<open>
  \<open>VectorizedOptimizer._update_best_results\<close>; \<open>cnt\<close> is its argument \<open>count\<close>. The arrays
  have the shapes of the docstring, one reward for each feature row; other shapes are
  reported as \<open>ShapeError\<close>.
\<close>

definition update_best_results ::
  "VectorizedStrategyResults \<Rightarrow> int \<Rightarrow> real list list \<Rightarrow> xreal list
     \<Rightarrow> error + VectorizedStrategyResults"
where
  "update_best_results best_results cnt batch_features batch_rewards =
     (let all_rewards = batch_rewards @ rewards best_results;
          all_features = batch_features @ features best_results
      in if length all_features \<noteq> length all_rewards then Inl ShapeError
         else
           case argpartition (map uminus all_rewards) (cnt - 1) of
             Inl e \<Rightarrow> Inl e
           | Inr ind \<Rightarrow>
               let top_indices = slice_to ind cnt
               in Inr \<lparr> features = map (\<lambda>i. all_features ! i) top_indices,
                        rewards = map (\<lambda>i. all_rewards ! i) top_indices \<rparr>)"

text \<open>
  What the loop of \<open>optimize\<close> does to the pool: the batches are folded into it one after
  the other with \<open>_update_best_results\<close>.
\<close>

primrec fold_best_results ::
  "int \<Rightarrow> VectorizedStrategyResults \<Rightarrow> VectorizedStrategyResults list
     \<Rightarrow> error + VectorizedStrategyResults"
where
  "fold_best_results cnt pool [] = Inr pool"
| "fold_best_results cnt pool (b # bs) =
     (case update_best_results pool cnt (features b) (rewards b) of
        Inl e \<Rightarrow> Inl e
      | Inr pool' \<Rightarrow> fold_best_results cnt pool' bs)"

text \<open>The \<open>k\<close> largest values of a list, the largest first: the top-\<open>k\<close> of the claims.\<close>

definition top_count :: "nat \<Rightarrow> xreal list \<Rightarrow> xreal list" where
  "top_count k xs = take k (rev (sort xs))"

text \<open>The first error of a list of results, or all the values.\<close>

fun sequence :: "(error + 'a) list \<Rightarrow> error + 'a list" where
  "sequence [] = Inr []"
| "sequence (Inl e # rs) = Inl e"
| "sequence (Inr v # rs) = (case sequence rs of Inl e \<Rightarrow> Inl e | Inr vs \<Rightarrow> Inr (v # vs))"

text \<open>\<open>VectorizedOptimizer._best_candidates\<close>.\<close>

definition best_candidates ::
  "VectorizedStrategyResults \<Rightarrow> ('t, 'p) ArrayConverter \<Rightarrow> error + 'p Trial list"
where
  "best_candidates best_results converter =
     (if length (features best_results) \<noteq> length (rewards best_results) then Inl ShapeError
      else
        let sorted_ind = argsort (map uminus (rewards best_results))
        in sequence
             (map (\<lambda>i.
                let ind = sorted_ind ! i
                in case to_parameters converter [features best_results ! ind] of
                     [] \<Rightarrow> Inl IndexError
                   | p # ps \<Rightarrow>
                       Inr \<lparr> parameters = p,
                             final_measurement =
                               Some [(''acquisition'', rewards best_results ! ind)] \<rparr>)
              [0..<length (rewards best_results)]))"

text \<open>
  \<open>jax.lax.fori_loop(lower, upper, body, init)\<close>: the body runs for the indices from
  \<open>lower\<close> to \<open>upper - 1\<close>, not at all when \<open>upper \<le> lower\<close>. An exception of the body ends the
  loop.
\<close>

primrec iterate_steps ::
  "nat \<Rightarrow> int \<Rightarrow> (int \<Rightarrow> 'a \<Rightarrow> error + 'a) \<Rightarrow> 'a \<Rightarrow> error + 'a" where
  "iterate_steps 0 i body a = Inr a"
| "iterate_steps (Suc n) i body a =
     (case body i a of Inl e \<Rightarrow> Inl e | Inr a' \<Rightarrow> iterate_steps n (i + 1) body a')"

definition fori_loop ::
  "int \<Rightarrow> int \<Rightarrow> (int \<Rightarrow> 'a \<Rightarrow> error + 'a) \<Rightarrow> 'a \<Rightarrow> error + 'a" where
  "fori_loop lower upper body init = iterate_steps (nat (upper - lower)) lower body init"

text \<open>
  \<open>_optimization_one_step\<close>, the body of the loop of \<open>optimize\<close>. The loop carries the state
  of the strategy, the best results and the seed. The fourth component is a ghost: the
  batches that \<open>score_fn\<close> has scored in the loop, the latest first, each with its rewards.
  The program does not hold it; it is there to count the evaluations.
\<close>

definition optimization_one_step ::
  "('t, 'p) ArrayConverter \<Rightarrow> 's VectorizedStrategy \<Rightarrow> (real list list \<Rightarrow> error + xreal list)
     \<Rightarrow> int \<Rightarrow> bool list option \<Rightarrow> int
     \<Rightarrow> 's \<times> VectorizedStrategyResults \<times> key \<times> VectorizedStrategyResults list
     \<Rightarrow> error + ('s \<times> VectorizedStrategyResults \<times> key \<times> VectorizedStrategyResults list)"
where
  "optimization_one_step converter strategy score_fn cnt dimension_is_missing i args =
     (case args of (state, best_results, seed, scored) \<Rightarrow>
        let seeds = random_split seed 3;
            suggest_seed = seeds ! 0;
            update_seed = seeds ! 1;
            new_seed = seeds ! 2;
            suggested = suggest strategy state suggest_seed;
            new_features =
              (case dimension_is_missing of
                 Some m \<Rightarrow> if is_padded converter then map (where_mask m) suggested
                           else suggested
               | None \<Rightarrow> suggested)
        in case score_fn new_features of
             Inl e \<Rightarrow> Inl e
           | Inr new_rewards \<Rightarrow>
               let new_state = update strategy state new_features new_rewards update_seed
               in case update_best_results best_results cnt new_features new_rewards of
                    Inl e \<Rightarrow> Inl e
                  | Inr new_best_results \<Rightarrow>
                      Inr (new_state, new_best_results, new_seed,
                           \<lparr> features = new_features, rewards = new_rewards \<rparr> # scored))"

text \<open>
  The first lines of \<open>optimize\<close>: the prior trials, when there are any, are sorted by
  creation time, converted and scored once. For a padded converter the rows beyond the
  trials are set to zero.
\<close>

definition prior_data ::
  "('t, 'p) ArrayConverter \<Rightarrow> ('t \<Rightarrow> int) \<Rightarrow> (real list list \<Rightarrow> error + xreal list)
     \<Rightarrow> 't list option \<Rightarrow> error + (real list list option \<times> xreal list option)"
where
  "prior_data converter creation_time score_fn prior_trials =
     (case prior_trials of
        None \<Rightarrow> Inr (None, None)
      | Some ts \<Rightarrow>
          if ts = [] then Inr (None, None)
          else
            let sorted_trials = sort_key creation_time ts;
                converted = to_features converter sorted_trials;
                prior_features =
                  (if is_padded converter
                   then take (length sorted_trials) converted
                          @ map (map (\<lambda>v. 0)) (drop (length sorted_trials) converted)
                   else converted)
            in case score_fn prior_features of
                 Inl e \<Rightarrow> Inl e
               | Inr prior_rewards \<Rightarrow> Inr (Some prior_features, Some prior_rewards))"

definition dimension_mask :: "('t, 'p) ArrayConverter \<Rightarrow> bool list option" where
  "dimension_mask converter =
     (if is_padded converter
      then let n_features = sum_list (map num_dimensions (output_specs converter));
               n_padded_features = n_columns converter
           in Some (replicate n_features False
                      @ replicate (n_padded_features - n_features) True)
      else None)"

text \<open>
  The pool that \<open>_optimize\<close> starts from: \<open>n\<close> rows of zeros, each with the reward
  \<open>-jnp.inf\<close>.
\<close>

definition init_best_results :: "nat \<Rightarrow> nat \<Rightarrow> VectorizedStrategyResults" where
  "init_best_results n n_cols =
     \<lparr> features = replicate n (replicate n_cols 0), rewards = replicate n MInf \<rparr>"

text \<open>
  The nested function \<open>_optimize\<close>. \<open>jnp.ones([count])\<close> raises on a negative \<open>count\<close>, and
  \<open>//\<close> raises on a batch size of zero; Python's \<open>//\<close> on integers is \<open>div\<close>.
\<close>

definition optimize_loop ::
  "('t, 'p, 's) VectorizedOptimizer \<Rightarrow> ('t, 'p) ArrayConverter
     \<Rightarrow> (real list list \<Rightarrow> error + xreal list) \<Rightarrow> int \<Rightarrow> 's VectorizedStrategy
     \<Rightarrow> bool list option \<Rightarrow> real list list option \<Rightarrow> xreal list option \<Rightarrow> key
     \<Rightarrow> error + ('s \<times> VectorizedStrategyResults \<times> key \<times> VectorizedStrategyResults list)"
where
  "optimize_loop self converter score_fn cnt strategy dimension_is_missing
       prior_features prior_rewards seed =
     (let seeds = random_split seed 2;
          init_seed = seeds ! 0;
          loop_seed = seeds ! 1
      in if cnt < 0 then Inl (ValueError ''negative dimensions are not allowed'')
         else
           let init_args =
                 (init_state strategy init_seed prior_features prior_rewards,
                  init_best_results (nat cnt) (n_columns converter), loop_seed, [])
           in if suggestion_batch_size self = 0 then Inl ZeroDivisionError
              else fori_loop 0 (max_evaluations self div suggestion_batch_size self)
                     (optimization_one_step converter strategy score_fn cnt
                        dimension_is_missing)
                     init_args)"

text \<open>
  What \<open>logging.info\<close> writes at the end of \<open>optimize\<close>; the duration is the difference of
  two readings of the clock.
\<close>

record OptimizationLog =
  log_duration :: int
  log_evaluations :: int
  log_best_results :: VectorizedStrategyResults

text \<open>
  \<open>VectorizedOptimizer.optimize\<close>. \<open>creation_time\<close> reads the creation time of a prior
  trial and \<open>clock\<close> holds the two readings of \<open>datetime.datetime.now()\<close>. The result is the
  list of trials that the method returns, together with the line it logs.
\<close>

definition optimize ::
  "('t, 'p, 's) VectorizedOptimizer \<Rightarrow> ('t \<Rightarrow> int) \<Rightarrow> int \<times> int \<Rightarrow> ('t, 'p) ArrayConverter
     \<Rightarrow> (real list list \<Rightarrow> error + xreal list) \<Rightarrow> int \<Rightarrow> 't list option \<Rightarrow> int option
     \<Rightarrow> error + (OptimizationLog \<times> 'p Trial list)"
where
  "optimize self creation_time clock converter score_fn cnt prior_trials seed0 =
     (let seed = PRNGKey (case seed0 of None \<Rightarrow> 0 | Some n \<Rightarrow> if n \<noteq> 0 then n else 0)
      in case prior_data converter creation_time score_fn prior_trials of
           Inl e \<Rightarrow> Inl e
         | Inr (prior_features, prior_rewards) \<Rightarrow>
             let strategy = strategy_factory self converter (suggestion_batch_size self);
                 dimension_is_missing = dimension_mask converter;
                 run = optimize_loop self converter score_fn cnt strategy
                         dimension_is_missing prior_features prior_rewards seed;
                 start_time = fst clock
             in case (if jit_loop self then jit run else run) of
                  Inl e \<Rightarrow> Inl e
                | Inr (state, best_results, last_seed, scored) \<Rightarrow>
                    let entry =
                          \<lparr> log_duration = snd clock - start_time,
                            log_evaluations =
                              (max_evaluations self div suggestion_batch_size self)
                                * suggestion_batch_size self,
                            log_best_results = best_results \<rparr>
                    in case best_candidates best_results converter of
                         Inl e \<Rightarrow> Inl e
                       | Inr trials \<Rightarrow> Inr (entry, trials))"

section \<open>Acquisition functions\<close>

text \<open>
  The predictive distribution is an object of TensorFlow Probability. The code at hand
  reads its mean and standard deviation, one value for each query row, and calls
  \<open>sample\<close> with a number of samples, an optional \<open>seed\<close> and further keyword arguments.
\<close>

record Distribution =
  dist_mean :: "real list"
  dist_stddev :: "real list"
  dist_sample :: "int \<Rightarrow> key option \<Rightarrow> (string \<times> key) list \<Rightarrow> error + real list list"

text \<open>
  \<open>types.ContinuousAndCategoricalArray\<close> is declared outside the sources at hand: two
  arrays with the same rows. The numbers of columns are \<open>continuous.shape[-1]\<close> and
  \<open>categorical.shape[-1]\<close>.
\<close>

record ContinuousAndCategoricalArray =
  continuous :: "real list list"
  continuous_dim :: nat
  categorical :: "int list list"
  categorical_dim :: nat

text \<open>The type variable \<open>_F\<close> of the builders: \<open>isinstance(features, types.Array)\<close> or not.\<close>

datatype Features = Array "real list list" | ContinuousAndCategorical ContinuousAndCategoricalArray

text \<open>The protocol \<open>AcquisitionFunction\<close>: a callable on a distribution, features and labels.\<close>

type_synonym AcquisitionFunction =
  "Distribution \<Rightarrow> Features option \<Rightarrow> real list option \<Rightarrow> error + xreal list"

text \<open>\<open>UCB.__call__\<close> and \<open>HyperVolumeScalarization.__call__\<close>.\<close>

definition UCB_call :: "real \<Rightarrow> AcquisitionFunction" where
  "UCB_call coefficient distribution feats labels =
     Inr (map2 (\<lambda>m sd. Fin (m + coefficient * sd)) (dist_mean distribution) (dist_stddev distribution))"

definition HyperVolumeScalarization_call :: "real \<Rightarrow> AcquisitionFunction" where
  "HyperVolumeScalarization_call coefficient distribution feats labels =
     Inr (map2 (\<lambda>m sd. Fin (min m (coefficient * sd))) (dist_mean distribution) (dist_stddev distribution))"

record QEI =
  qei_num_samples :: int
  qei_seed :: "key option"

record QUCB =
  qucb_coefficient :: real
  qucb_num_samples :: int
  qucb_seed :: "key option"

text \<open>
  \<open>self.seed or jax.random.PRNGKey(0)\<close>. Python's \<open>or\<close> asks for the truth value of a seed
  that is not \<open>None\<close>; what \<open>bool\<close> makes of a key is decided by JAX and is the parameter
  \<open>key_bool\<close>: it may raise, and a key that counts as false is replaced as well.
\<close>

definition seed_or_default :: "(key \<Rightarrow> error + bool) \<Rightarrow> key option \<Rightarrow> error + key" where
  "seed_or_default key_bool s =
     (case s of
        None \<Rightarrow> Inr (PRNGKey 0)
      | Some k \<Rightarrow>
          (case key_bool k of
             Inl e \<Rightarrow> Inl e
           | Inr b \<Rightarrow> if b then Inr k else Inr (PRNGKey 0)))"

text \<open>
  \<open>QEI.__call__\<close> and \<open>QUCB.__call__\<close>. \<open>tfp_bo.acquisition.ParallelExpectedImprovement\<close> and
  \<open>ParallelUpperConfidenceBound\<close> belong to TensorFlow Probability and are parameters:
  they receive the distribution, the labels, the seed, the exploration coefficient (for
  the upper confidence bound) and the number of samples, and are called at once.
\<close>

definition QEI_call ::
  "(key \<Rightarrow> error + bool)
     \<Rightarrow> (Distribution \<Rightarrow> real list option \<Rightarrow> key \<Rightarrow> int \<Rightarrow> error + xreal list)
     \<Rightarrow> QEI \<Rightarrow> AcquisitionFunction"
where
  "QEI_call key_bool ParallelExpectedImprovement self distribution feats labels =
     (case seed_or_default key_bool (qei_seed self) of
        Inl e \<Rightarrow> Inl e
      | Inr seed \<Rightarrow> ParallelExpectedImprovement distribution labels seed (qei_num_samples self))"

definition QUCB_call ::
  "(key \<Rightarrow> error + bool)
     \<Rightarrow> (Distribution \<Rightarrow> real list option \<Rightarrow> key \<Rightarrow> real \<Rightarrow> int \<Rightarrow> error + xreal list)
     \<Rightarrow> QUCB \<Rightarrow> AcquisitionFunction"
where
  "QUCB_call key_bool ParallelUpperConfidenceBound self distribution feats labels =
     (case seed_or_default key_bool (qucb_seed self) of
        Inl e \<Rightarrow> Inl e
      | Inr seed \<Rightarrow>
          ParallelUpperConfidenceBound distribution labels seed (qucb_coefficient self)
            (qucb_num_samples self))"

section \<open>TrustRegionWithCategorical\<close>

record TrustRegionWithCategorical =
  trc_trusted :: ContinuousAndCategoricalArray
  trc_min_radius :: real
  trc_dimension_factor :: real
  trc_dof :: nat
  trc_trust_radius :: real
  trc_max_distance_cont :: "xreal list"

text \<open>
  \<open>TrustRegionWithCategorical.__init__\<close> with \<open>_compute_trust_radius\<close>: the number of
  trusted observations is the number of rows of the first leaf, the continuous array.
  The division of floats raises on a divisor of zero.
\<close>

definition TrustRegionWithCategorical_init ::
  "ContinuousAndCategoricalArray \<Rightarrow> real \<Rightarrow> real \<Rightarrow> error + TrustRegionWithCategorical"
where
  "TrustRegionWithCategorical_init trusted0 min_radius dimension_factor =
     (let n_dof = continuous_dim trusted0 + categorical_dim trusted0;
          num_trusted_obs = length (continuous trusted0)
      in if dimension_factor * (real n_dof + 1) = 0 then Inl ZeroDivisionError
         else
           let trust_level = real num_trusted_obs / (dimension_factor * (real n_dof + 1))
           in Inr \<lparr> trc_trusted = trusted0, trc_min_radius = min_radius,
                    trc_dimension_factor = dimension_factor, trc_dof = n_dof,
                    trc_trust_radius = min_radius + (0.5 - min_radius) * trust_level,
                    trc_max_distance_cont = replicate (continuous_dim trusted0) PInf \<rparr>)"

text \<open>\<open>TrustRegionWithCategorical.min_linf_distance\<close>: the continuous columns only.\<close>

definition trc_min_linf_distance ::
  "TrustRegionWithCategorical \<Rightarrow> ContinuousAndCategoricalArray \<Rightarrow> error + xreal list"
where
  "trc_min_linf_distance tr xs =
     (let D = continuous_dim (trc_trusted tr);
          trusted_cont = continuous (trc_trusted tr)
      in if list_all (\<lambda>t. length t = D) trusted_cont
            \<and> list_all (\<lambda>x. length x = D) (continuous xs)
         then
           if D = 0 \<or> trusted_cont = [] then Inl ZeroSizeReduction
           else
             let distances_cont =
                   map (\<lambda>x. map (\<lambda>t. map2 (\<lambda>ti xi. Fin \<bar>ti - xi\<bar>) t x) trusted_cont)
                     (continuous xs);
                 linf_distance_cont = map (map (\<lambda>d. Max (set d))) distances_cont
             in Inr (map (\<lambda>dn. Min (set dn)) linf_distance_cont)
         else Inl ShapeError)"

text \<open>The attribute \<open>_tr\<close> of a builder holds a trust region of one of the two classes.\<close>

datatype trust_region = TR TrustRegion | TRC TrustRegionWithCategorical

fun tr_trust_radius :: "trust_region \<Rightarrow> real" where
  "tr_trust_radius (TR t) = trust_radius t"
| "tr_trust_radius (TRC t) = trc_trust_radius t"

text \<open>A query of the other representation has not the attributes that the method reads.\<close>

fun tr_min_linf_distance :: "trust_region \<Rightarrow> Features \<Rightarrow> error + xreal list" where
  "tr_min_linf_distance (TR t) (Array xs) = min_linf_distance t xs"
| "tr_min_linf_distance (TRC t) (ContinuousAndCategorical xs) = trc_min_linf_distance t xs"
| "tr_min_linf_distance (TR t) (ContinuousAndCategorical xs) = Inl TypeError"
| "tr_min_linf_distance (TRC t) (Array xs) = Inl AttributeError"

section \<open>The acquisition builders\<close>

text \<open>
  \<open>jnp.where\<close> on three arrays of one axis: an axis of length one is stretched to the
  common length, other lengths must agree.
\<close>

definition broadcast_to :: "nat \<Rightarrow> 'a list \<Rightarrow> 'a list" where
  "broadcast_to n xs = (if length xs = n then xs else replicate n (hd xs))"

definition jnp_where :: "bool list \<Rightarrow> 'a list \<Rightarrow> 'a list \<Rightarrow> error + 'a list" where
  "jnp_where c x y =
     (let ls = [length c, length x, length y];
          n = (case filter (\<lambda>k. k \<noteq> 1) ls of [] \<Rightarrow> 1 | k # ks \<Rightarrow> k)
      in if list_all (\<lambda>k. k = 1 \<or> k = n) ls
         then Inr (map (\<lambda>(ci, xi, yi). if ci then xi else yi)
                    (zip (broadcast_to n c) (zip (broadcast_to n x) (broadcast_to n y))))
         else Inl ShapeError)"

text \<open>
  The problem statement of pyvizier, as far as \<open>build\<close> touches it: the metric
  information is a list of metrics with a name and a goal; the search space and the
  metadata are kept as they are. Problem statements are objects: they live in a heap,
  a list of cells, and a reference is the index of a cell. \<open>copy.deepcopy\<close> allocates a
  new cell with the same content.
\<close>

datatype ObjectiveMetricGoal = MAXIMIZE | MINIMIZE

record MetricInformation =
  metric_name :: string
  metric_goal :: ObjectiveMetricGoal

record ('ss, 'md) ProblemStatement =
  search_space :: 'ss
  metric_information :: "MetricInformation list"
  problem_metadata :: 'md

definition deepcopy :: "'a list \<Rightarrow> nat \<Rightarrow> 'a list \<times> nat" where
  "deepcopy h r = (h @ [h ! r], length h)"

text \<open>
  \<open>GPBanditAcquisitionBuilder\<close>: its two fields and the attributes that
  \<open>__attrs_post_init__\<close> and \<open>build\<close> set (\<open>_built\<close>, \<open>_get_predictive_dist\<close>, ...). An
  attribute that is not set yet is \<open>None\<close>.
\<close>

record GPBanditAcquisitionBuilder =
  acquisition_fn :: AcquisitionFunction
  use_trust_region :: bool
  attr_built :: bool
  attr_get_predictive_dist :: "(Features \<Rightarrow> Distribution) option"
  attr_predict_on_array :: "(Features \<Rightarrow> real list \<times> real list) option"
  attr_sample_on_array :: "(Features \<Rightarrow> int \<Rightarrow> key \<Rightarrow> error + real list list) option"
  attr_tr :: "trust_region option"
  attr_acquisition_on_array :: "(Features \<Rightarrow> error + xreal list) option"
  attr_acquisition_problem :: "nat option"

definition GPBanditAcquisitionBuilder_new ::
  "AcquisitionFunction \<Rightarrow> bool \<Rightarrow> GPBanditAcquisitionBuilder" where
  "GPBanditAcquisitionBuilder_new fn use_tr =
     \<lparr> acquisition_fn = fn, use_trust_region = use_tr, attr_built = False,
       attr_get_predictive_dist = None, attr_predict_on_array = None,
       attr_sample_on_array = None, attr_tr = None, attr_acquisition_on_array = None,
       attr_acquisition_problem = None \<rparr>"

definition not_built_error :: error where
  "not_built_error = ValueError ''Acquisition must be built first via build().''"

text \<open>
  The function \<open>acquisition_on_array\<close> that \<open>GPBanditAcquisitionBuilder.build\<close> defines. It
  reads \<open>acquisition_fn\<close>, \<open>use_trust_region\<close> and \<open>_tr\<close> from the builder when it is called;
  they are given here as they are when \<open>build\<close> returns.
\<close>

definition acquisition_on_array_fn ::
  "(Features \<Rightarrow> Distribution) \<Rightarrow> AcquisitionFunction \<Rightarrow> bool \<Rightarrow> trust_region option
     \<Rightarrow> Features \<Rightarrow> real list \<Rightarrow> Features \<Rightarrow> error + xreal list"
where
  "acquisition_on_array_fn predictive fn use_tr tr feats labels xs =
     (let distribution = predictive xs
      in case fn distribution (Some feats) (Some labels) of
           Inl e \<Rightarrow> Inl e
         | Inr acquisition \<Rightarrow>
             if use_tr
             then (case tr of
                     None \<Rightarrow> Inl AttributeError
                   | Some t \<Rightarrow>
                       if tr_trust_radius t < 0.5
                       then (case tr_min_linf_distance t xs of
                               Inl e \<Rightarrow> Inl e
                             | Inr distance \<Rightarrow>
                                 jnp_where
                                   (map (\<lambda>d. d \<le> Fin (tr_trust_radius t)) distance)
                                   acquisition
                                   (map (fin_minus (- 1000000000000)) distance))
                       else Inr acquisition)
             else Inr acquisition)"

text \<open>
  \<open>GPBanditAcquisitionBuilder.build\<close>. \<open>predictive\<close> is the function that
  \<open>_build_predictive_distribution\<close> returns for the model, its state, the features, the
  labels and the mask of observations: the posterior predictive distribution of the
  surrogate, which is outside the sources at hand. \<open>problem\<close> is the reference of the
  caller's problem statement in the heap \<open>h\<close>. The result is the heap and the builder
  after the call, and the exception if one was raised.
\<close>

definition GPBanditAcquisitionBuilder_build ::
  "GPBanditAcquisitionBuilder \<Rightarrow> ('ss, 'md) ProblemStatement list \<Rightarrow> nat
     \<Rightarrow> (Features \<Rightarrow> Distribution) \<Rightarrow> Features \<Rightarrow> real list \<Rightarrow> NumpyArraySpec list
     \<Rightarrow> bool list option \<Rightarrow> bool list option
     \<Rightarrow> ('ss, 'md) ProblemStatement list \<times> GPBanditAcquisitionBuilder \<times> error option"
where
  "GPBanditAcquisitionBuilder_build self h problem predictive feats labels specs oim fim =
     (let self1 = self
            \<lparr> attr_get_predictive_dist := Some predictive,
              attr_predict_on_array :=
                Some (\<lambda>xs. (dist_mean (predictive xs), dist_stddev (predictive xs))),
              attr_sample_on_array :=
                Some (\<lambda>xs num_samples k. dist_sample (predictive xs) num_samples (Some k) []) \<rparr>
      in case (if use_trust_region self
               then (case feats of
                       Array a \<Rightarrow> Inr (Some (TR (TrustRegion_init a specs fim oim)))
                     | ContinuousAndCategorical c \<Rightarrow>
                         (case TrustRegionWithCategorical_init c 0.2 5.0 of
                            Inl e \<Rightarrow> Inl e
                          | Inr t \<Rightarrow> Inr (Some (TRC t))))
               else Inr (attr_tr self)) of
           Inl e \<Rightarrow> (h, self1, Some e)
         | Inr tr \<Rightarrow>
             let self2 = self1
                   \<lparr> attr_tr := tr,
                     attr_acquisition_on_array :=
                       Some (acquisition_on_array_fn predictive (acquisition_fn self)
                               (use_trust_region self) tr feats labels) \<rparr>;
                 copied = deepcopy h problem;
                 h1 = fst copied;
                 acquisition_problem0 = snd copied;
                 config = [\<lparr> metric_name = ''acquisition'', metric_goal = MAXIMIZE \<rparr>];
                 h2 = h1[acquisition_problem0 :=
                           (h1 ! acquisition_problem0)\<lparr> metric_information := config \<rparr>]
             in (h2,
                 self2\<lparr> attr_acquisition_problem := Some acquisition_problem0,
                        attr_built := True \<rparr>,
                 None))"

text \<open>The properties of \<open>GPBanditAcquisitionBuilder\<close>.\<close>

definition acquisition_problem :: "GPBanditAcquisitionBuilder \<Rightarrow> error + nat" where
  "acquisition_problem self =
     (if \<not> attr_built self then Inl not_built_error
      else case attr_acquisition_problem self of
             None \<Rightarrow> Inl AttributeError | Some r \<Rightarrow> Inr r)"

definition acquisition_on_array ::
  "GPBanditAcquisitionBuilder \<Rightarrow> error + (Features \<Rightarrow> error + xreal list)" where
  "acquisition_on_array self =
     (if \<not> attr_built self then Inl not_built_error
      else case attr_acquisition_on_array self of
             None \<Rightarrow> Inl AttributeError | Some f \<Rightarrow> Inr f)"

definition predict_on_array ::
  "GPBanditAcquisitionBuilder \<Rightarrow> error + (Features \<Rightarrow> real list \<times> real list)" where
  "predict_on_array self =
     (if \<not> attr_built self then Inl not_built_error
      else case attr_predict_on_array self of
             None \<Rightarrow> Inl AttributeError | Some f \<Rightarrow> Inr f)"

definition metadata_dict :: "GPBanditAcquisitionBuilder \<Rightarrow> error + (string \<times> real) list" where
  "metadata_dict self =
     (if \<not> attr_built self then Inl not_built_error
      else if \<not> use_trust_region self then Inr []
      else case attr_tr self of
             None \<Rightarrow> Inl AttributeError
           | Some t \<Rightarrow> Inr [(''trust_radius'', tr_trust_radius t)])"

definition sample_on_array ::
  "GPBanditAcquisitionBuilder
     \<Rightarrow> error + (Features \<Rightarrow> int \<Rightarrow> key \<Rightarrow> error + real list list)" where
  "sample_on_array self =
     (if \<not> attr_built self then Inl not_built_error
      else case attr_sample_on_array self of
             None \<Rightarrow> Inl AttributeError | Some f \<Rightarrow> Inr f)"

text \<open>
  \<open>GPBanditMultiAcquisitionBuilder\<close>. The dictionary \<open>acquisition_fns\<close> is the list of its
  items in the order of insertion.
\<close>

record GPBanditMultiAcquisitionBuilder =
  acquisition_fns :: "(string \<times> AcquisitionFunction) list"
  m_use_trust_region :: bool
  m_attr_built :: bool
  m_attr_get_predictive_dist :: "(Features \<Rightarrow> Distribution) option"
  m_attr_predict_on_array :: "(Features \<Rightarrow> real list \<times> real list) option"
  m_attr_sample_on_array :: "(Features \<Rightarrow> int \<Rightarrow> key \<Rightarrow> error + real list list) option"
  m_attr_tr :: "trust_region option"
  m_attr_acquisition_on_array :: "(Features \<Rightarrow> error + xreal list list) option"
  m_attr_acquisition_problem :: "nat option"

definition GPBanditMultiAcquisitionBuilder_new ::
  "(string \<times> AcquisitionFunction) list \<Rightarrow> bool \<Rightarrow> GPBanditMultiAcquisitionBuilder" where
  "GPBanditMultiAcquisitionBuilder_new fns use_tr =
     \<lparr> acquisition_fns = fns, m_use_trust_region = use_tr, m_attr_built = False,
       m_attr_get_predictive_dist = None, m_attr_predict_on_array = None,
       m_attr_sample_on_array = None, m_attr_tr = None, m_attr_acquisition_on_array = None,
       m_attr_acquisition_problem = None \<rparr>"

text \<open>
  The function \<open>acquisition_on_array\<close> of the multi-acquisition builder: one row for each
  acquisition function. \<open>jnp.stack\<close> raises on an empty list and on rows of different
  lengths; \<open>jnp.where\<close> runs along each row.
\<close>

definition multi_acquisition_on_array_fn ::
  "(Features \<Rightarrow> Distribution) \<Rightarrow> (string \<times> AcquisitionFunction) list \<Rightarrow> bool
     \<Rightarrow> trust_region option \<Rightarrow> Features \<Rightarrow> real list \<Rightarrow> Features
     \<Rightarrow> error + xreal list list"
where
  "multi_acquisition_on_array_fn predictive fns use_tr tr feats labels xs =
     (let distribution = predictive xs
      in case sequence (map (\<lambda>fn. fn distribution (Some feats) (Some labels)) (map snd fns)) of
           Inl e \<Rightarrow> Inl e
         | Inr acquisitions \<Rightarrow>
             if acquisitions = [] then Inl (ValueError ''Need at least one array to stack.'')
             else if list_all (\<lambda>a. length a = length (hd acquisitions)) acquisitions
             then
               if use_tr
               then (case tr of
                       None \<Rightarrow> Inl AttributeError
                     | Some t \<Rightarrow>
                         if tr_trust_radius t < 0.5
                         then (case tr_min_linf_distance t xs of
                                 Inl e \<Rightarrow> Inl e
                               | Inr distance \<Rightarrow>
                                   sequence
                                     (map (\<lambda>acquisition.
                                         jnp_where
                                           (map (\<lambda>d. d \<le> Fin (tr_trust_radius t)) distance)
                                           acquisition
                                           (map (fin_minus (- 1000000000000)) distance))
                                       acquisitions))
                         else Inr acquisitions)
               else Inr acquisitions
             else Inl ShapeError)"

text \<open>
  \<open>GPBanditMultiAcquisitionBuilder.build\<close>. The masks are deleted at once; the sampling
  function passes the key as the keyword \<open>key\<close> and no \<open>seed\<close>.
\<close>

definition GPBanditMultiAcquisitionBuilder_build ::
  "GPBanditMultiAcquisitionBuilder \<Rightarrow> ('ss, 'md) ProblemStatement list \<Rightarrow> nat
     \<Rightarrow> (Features \<Rightarrow> Distribution) \<Rightarrow> Features \<Rightarrow> real list \<Rightarrow> NumpyArraySpec list
     \<Rightarrow> ('ss, 'md) ProblemStatement list \<times> GPBanditMultiAcquisitionBuilder \<times> error option"
where
  "GPBanditMultiAcquisitionBuilder_build self h problem predictive feats labels specs =
     (let self1 = self
            \<lparr> m_attr_get_predictive_dist := Some predictive,
              m_attr_predict_on_array :=
                Some (\<lambda>xs. (dist_mean (predictive xs), dist_stddev (predictive xs))),
              m_attr_sample_on_array :=
                Some (\<lambda>xs num_samples k.
                        dist_sample (predictive xs) num_samples None [(''key'', k)]) \<rparr>
      in case (if m_use_trust_region self
               then (case feats of
                       Array a \<Rightarrow> Inr (Some (TR (TrustRegion_init a specs None None)))
                     | ContinuousAndCategorical c \<Rightarrow>
                         Inl (ValueError
                           (''GPBanditMultiAcquisitionBuilder does not support trust region''
                              @ '' with continuous and categorical.'')))
               else Inr (m_attr_tr self)) of
           Inl e \<Rightarrow> (h, self1, Some e)
         | Inr tr \<Rightarrow>
             let self2 = self1
                   \<lparr> m_attr_tr := tr,
                     m_attr_acquisition_on_array :=
                       Some (multi_acquisition_on_array_fn predictive (acquisition_fns self)
                               (m_use_trust_region self) tr feats labels) \<rparr>;
                 copied = deepcopy h problem;
                 h1 = fst copied;
                 acquisition_problem0 = snd copied;
                 config = map (\<lambda>name. \<lparr> metric_name = name, metric_goal = MAXIMIZE \<rparr>)
                            (map fst (acquisition_fns self));
                 h2 = h1[acquisition_problem0 :=
                           (h1 ! acquisition_problem0)\<lparr> metric_information := config \<rparr>]
             in (h2,
                 self2\<lparr> m_attr_acquisition_problem := Some acquisition_problem0,
                        m_attr_built := True \<rparr>,
                 None))"

text \<open>The properties of \<open>GPBanditMultiAcquisitionBuilder\<close>.\<close>

definition m_acquisition_problem :: "GPBanditMultiAcquisitionBuilder \<Rightarrow> error + nat" where
  "m_acquisition_problem self =
     (if \<not> m_attr_built self then Inl not_built_error
      else case m_attr_acquisition_problem self of
             None \<Rightarrow> Inl AttributeError | Some r \<Rightarrow> Inr r)"

definition m_acquisition_on_array ::
  "GPBanditMultiAcquisitionBuilder \<Rightarrow> error + (Features \<Rightarrow> error + xreal list list)" where
  "m_acquisition_on_array self =
     (if \<not> m_attr_built self then Inl not_built_error
      else case m_attr_acquisition_on_array self of
             None \<Rightarrow> Inl AttributeError | Some f \<Rightarrow> Inr f)"

definition m_predict_on_array ::
  "GPBanditMultiAcquisitionBuilder \<Rightarrow> error + (Features \<Rightarrow> real list \<times> real list)" where
  "m_predict_on_array self =
     (if \<not> m_attr_built self then Inl not_built_error
      else case m_attr_predict_on_array self of
             None \<Rightarrow> Inl AttributeError | Some f \<Rightarrow> Inr f)"

definition m_metadata_dict ::
  "GPBanditMultiAcquisitionBuilder \<Rightarrow> error + (string \<times> real) list" where
  "m_metadata_dict self =
     (if \<not> m_attr_built self then Inl not_built_error
      else if \<not> m_use_trust_region self then Inr []
      else case m_attr_tr self of
             None \<Rightarrow> Inl AttributeError
           | Some t \<Rightarrow> Inr [(''trust_radius'', tr_trust_radius t)])"

definition m_sample_on_array ::
  "GPBanditMultiAcquisitionBuilder
     \<Rightarrow> error + (Features \<Rightarrow> int \<Rightarrow> key \<Rightarrow> error + real list list)" where
  "m_sample_on_array self =
     (if \<not> m_attr_built self then Inl not_built_error
      else case m_attr_sample_on_array self of
             None \<Rightarrow> Inl AttributeError | Some f \<Rightarrow> Inr f)"

section \<open>The trust radius\<close>

lemma compute_trust_radius_eq:
  "compute_trust_radius d t = 0.2 + (0.5 - 0.2) * (real (length t) / (5 * (real d + 1)))"
proof -
  have "0.1 * real (length t) + 0.9 * real (length t) = real (length t)"
    by linarith
  then show ?thesis
    by (simp add: compute_trust_radius_def Let_def)
qed

lemma trust_radius_init [simp]:
  "trust_radius (TrustRegion_init t specs fim oim) = compute_trust_radius (length specs) t"
  by (simp add: TrustRegion_init_def Let_def)

lemma compute_trust_radius_mono:
  "length t \<le> length t' \<Longrightarrow> compute_trust_radius d t \<le> compute_trust_radius d t'"
  by (simp add: compute_trust_radius_eq divide_right_mono)

lemma compute_trust_radius_unclamped:
  assumes "5 * (d + 1) < length t"
  shows "0.5 < compute_trust_radius d t"
proof -
  define x where "x = real (length t) / (5 * (real d + 1))"
  have "real (5 * (d + 1)) < real (length t)"
    using assms by (simp only: of_nat_less_iff)
  then have "5 * (real d + 1) < real (length t)"
    by simp
  then have "1 < x"
    unfolding x_def by (simp add: field_simps)
  then have "0.5 < 0.2 + (0.5 - 0.2) * x"
    by simp
  then show ?thesis
    unfolding compute_trust_radius_eq x_def .
qed



section \<open>Distances to the trusted rows\<close>

lemma xreal_min_max_simps [simp]:
  "min (Fin a) (Fin b) = Fin (min a b)" "min PInf y = y" "min x PInf = x"
  "min MInf y = MInf" "min x MInf = MInf"
  "max (Fin a) (Fin b) = Fin (max a b)" "max PInf y = PInf" "max x PInf = PInf"
  "max MInf y = y" "max x MInf = x"
  by (cases x; cases y; simp add: min_def max_def)+

text \<open>
  Claim C5 says that a trusted row flagged as a missing observation is forced to the
  distance \<open>+infinity\<close>, so that the distance is \<open>+infinity\<close> for every query row when all
  trusted rows are flagged. The code sets the differences of such a row to \<open>np.inf\<close> and
  caps them afterwards with \<open>_max_distances\<close>, which is the trust radius on one-hot
  dimensions. With one trusted row \<open>[1, 0]\<close>, flagged as missing, under a single one-hot
  spec of two dimensions, the query row \<open>[0, 1]\<close> gets the distance \<open>0.23\<close>, which is the
  trust radius: the flagged row is the nearest trusted point and the query row lies in
  the trust region.
\<close>

theorem min_linf_distance_missing_row_capped:
  "min_linf_distance
     (TrustRegion_init [[1, 0]] [\<lparr>spec_type = ONEHOT_EMBEDDING, num_dimensions = 2\<rparr>]
        None (Some [True]))
     [[0, 1]] = Inr [Fin 0.23]
   \<and> trust_radius
        (TrustRegion_init [[1, 0]] [\<lparr>spec_type = ONEHOT_EMBEDDING, num_dimensions = 2\<rparr>]
           None (Some [True])) = 0.23"
  by (simp add: min_linf_distance_def TrustRegion_init_def compute_trust_radius_eq Let_def
      eval_nat_numeral)

theorem min_linf_distance_missing_row_capped_witness:
  "min_linf_distance
     (TrustRegion_init [[1, 0]] [\<lparr>spec_type = ONEHOT_EMBEDDING, num_dimensions = 2\<rparr>]
        None (Some [True]))
     [[0, 1]] \<noteq> Inr [PInf]"
  using min_linf_distance_missing_row_capped by simp

section \<open>The best-results pool\<close>

lemma uminus_xreal_involutive [simp]: "- (- x) = (x::xreal)"
  by (cases x) simp_all

lemma uminus_xreal_inj: "inj (uminus :: xreal \<Rightarrow> xreal)"
  by (rule inj_on_inverseI [where g = uminus]) simp

lemma uminus_xreal_le_iff [simp]: "- x \<le> - y \<longleftrightarrow> y \<le> (x::xreal)"
  by (cases x; cases y) simp_all

lemma MInf_least [simp]: "MInf \<le> x"
  by simp

lemma map_insort_key:
  "map f (insort_key (\<lambda>y. g (f y)) x xs) = insort_key g (f x) (map f xs)"
  by (induction xs) simp_all

lemma map_sort_key: "map f (sort_key (\<lambda>y. g (f y)) xs) = sort_key g (map f xs)"
  by (induction xs) (simp_all add: map_insort_key)

lemma insort_key_cong_key:
  "f x = g x \<Longrightarrow> (\<And>y. y \<in> set xs \<Longrightarrow> f y = g y) \<Longrightarrow> insort_key f x xs = insort_key g x xs"
  by (induction xs) simp_all

lemma sort_key_cong_key:
  "(\<And>y. y \<in> set xs \<Longrightarrow> f y = g y) \<Longrightarrow> sort_key f xs = sort_key g xs"
proof (induction xs)
  case Nil
  show ?case by simp
next
  case (Cons x xs)
  then have "sort_key f xs = sort_key g xs" by simp
  moreover have "insort_key f x (sort_key g xs) = insort_key g x (sort_key g xs)"
    by (rule insort_key_cong_key) (simp_all add: Cons.prems)
  ultimately show ?case by simp
qed

lemma values_of_argsort: "map (\<lambda>i. a ! i) (argsort (map uminus a)) = sort_key uminus a"
proof -
  have "argsort (map uminus a) = sort_key (\<lambda>i. - (a ! i)) [0..<length a]"
    unfolding argsort_def by (simp, rule sort_key_cong_key) simp
  then show ?thesis
    by (simp add: map_sort_key [where f = "\<lambda>i. a ! i" and g = uminus] map_nth)
qed

lemma take_insort_key:
  "take k (insort_key f x (take k l)) = take k (insort_key f x l)"
proof (induction l arbitrary: k)
  case Nil
  show ?case by simp
next
  case (Cons y ys)
  show ?case
  proof (cases k)
    case 0
    then show ?thesis by simp
  next
    case (Suc j)
    show ?thesis
    proof (cases "f x \<le> f y")
      case True
      then show ?thesis using Suc by (cases j) simp_all
    next
      case False
      then show ?thesis using Suc Cons.IH [of j] by simp
    qed
  qed
qed


lemma take_foldr_insort_key:
  "take k (foldr (insort_key f) xs (take k l)) = take k (foldr (insort_key f) xs l)"
proof (induction xs)
  case Nil
  show ?case by simp
next
  case (Cons x xs)
  have "take k (foldr (insort_key f) (x # xs) (take k l))
      = take k (insort_key f x (take k (foldr (insort_key f) xs (take k l))))"
    by (simp add: take_insort_key)
  also have "\<dots> = take k (insort_key f x (take k (foldr (insort_key f) xs l)))"
    by (simp only: Cons.IH)
  also have "\<dots> = take k (foldr (insort_key f) (x # xs) l)"
    by (simp add: take_insort_key)
  finally show ?case .
qed

lemma sort_key_append: "sort_key f (xs @ ys) = foldr (insort_key f) xs (sort_key f ys)"
  by (simp add: sort_key_def)

lemma top_absorb:
  "take k (sort_key f (xs @ take k (sort_key f ys))) = take k (sort_key f (xs @ ys))"
proof -
  have "sorted (map f (take k (sort_key f ys)))"
    by (simp add: take_map [symmetric])
  then have "sort_key f (take k (sort_key f ys)) = take k (sort_key f ys)"
    by (rule sort_key_id_if_sorted)
  then show ?thesis
    by (simp add: sort_key_append take_foldr_insort_key)
qed

lemma sort_key_inj_mset:
  assumes "inj f" and "mset xs = mset ys"
  shows "sort_key f xs = sort_key f ys"
proof -
  have "map f (sort_key f xs) = sort (map f xs)" for xs
    using map_sort_key [of f "\<lambda>x. x" xs] by simp
  moreover have "sort (map f xs) = sort (map f ys)"
    by (rule properties_for_sort) (simp_all add: assms(2))
  ultimately have "map f (sort_key f xs) = map f (sort_key f ys)"
    by simp
  then show ?thesis
    using assms(1) by (simp add: inj_map_eq_map)
qed

lemma sort_key_uminus: "sort_key uminus xs = rev (sort (xs :: xreal list))"
proof -
  have "sorted (map uminus (rev (sort xs)))"
    by (simp add: sorted_wrt_map sorted_wrt_rev rev_map [symmetric])
  then have "sort (map uminus xs) = map uminus (rev (sort xs))"
    by (intro properties_for_sort) simp_all
  moreover have "map uminus (sort_key uminus xs) = sort (map uminus xs)"
    using map_sort_key [of uminus "\<lambda>x. x" xs] by simp
  ultimately show ?thesis
    using uminus_xreal_inj by (simp add: inj_map_eq_map)
qed

lemma length_argsort [simp]: "length (argsort a) = length a"
  by (simp add: argsort_def)

lemma update_best_results_eq:
  assumes "0 \<le> cnt" and "length bf = length br"
    and "length (features P) = length (rewards P)"
    and "nat cnt \<le> length br + length (rewards P)"
    and "1 \<le> cnt \<or> br \<noteq> [] \<or> rewards P \<noteq> []"
  shows "update_best_results P cnt bf br =
     Inr \<lparr> features = map (\<lambda>i. (bf @ features P) ! i)
                         (take (nat cnt) (argsort (map uminus (br @ rewards P)))),
           rewards = take (nat cnt) (sort_key uminus (br @ rewards P)) \<rparr>"
proof -
  let ?all = "br @ rewards P"
  let ?s = "argsort (map uminus ?all)"
  have m: "1 \<le> cnt + int (length br) + int (length (rewards P))"
  proof (cases "1 \<le> cnt")
    case True
    then show ?thesis by linarith
  next
    case False
    then have "0 < length br \<or> 0 < length (rewards P)"
      using assms(5) by simp
    then show ?thesis using assms(1) by linarith
  qed
  have "int (nat cnt) \<le> int (length br) + int (length (rewards P))"
    using assms(4) by linarith
  then have "cnt \<le> int (length br) + int (length (rewards P))"
    using assms(1) by simp
  with m have n: "\<not> (cnt - 1 < - int (length (map uminus ?all)) \<or> int (length (map uminus ?all)) \<le> cnt - 1)"
    by simp
  have sl: "slice_to (take (Suc (nat (if cnt - 1 < 0 then cnt - 1 + int (length (map uminus ?all)) else cnt - 1))) ?s
              @ sort (drop (Suc (nat (if cnt - 1 < 0 then cnt - 1 + int (length (map uminus ?all)) else cnt - 1))) ?s)) cnt
            = take (nat cnt) ?s"
  proof (cases "1 \<le> cnt")
    case True
    then have "Suc (nat (cnt - 1)) = nat cnt" by simp
    moreover have "nat cnt \<le> length ?s" using assms by simp
    ultimately show ?thesis using True by (simp add: slice_to_def)
  next
    case False
    then have "cnt = 0" using assms by simp
    then show ?thesis by (simp add: slice_to_def)
  qed
  have r: "map (\<lambda>i. ?all ! i) (take (nat cnt) ?s) = take (nat cnt) (sort_key uminus ?all)"
    by (simp only: take_map [symmetric] values_of_argsort)
  show ?thesis
    unfolding update_best_results_def argpartition_def Let_def
    using assms(2,3) n sl r by simp
qed


lemma fold_best_results_eq:
  assumes "0 \<le> cnt" and "length (features P) = length (rewards P)"
    and "length (rewards P) = nat cnt"
    and "\<forall>b\<in>set bs. length (features b) = length (rewards b)"
    and "1 \<le> cnt \<or> (\<forall>b\<in>set bs. rewards b \<noteq> [])"
  shows "\<exists>P'. fold_best_results cnt P bs = Inr P'
           \<and> length (features P') = nat cnt
           \<and> length (rewards P') = nat cnt
           \<and> mset (rewards P') =
               mset (take (nat cnt)
                 (sort_key uminus (concat (map rewards (rev bs)) @ rewards P)))"
  using assms
proof (induction bs arbitrary: P)
  case Nil
  then show ?case by simp
next
  case (Cons b bs)
  define P1 where "P1 = \<lparr> features = map (\<lambda>i. (features b @ features P) ! i)
                 (take (nat cnt) (argsort (map uminus (rewards b @ rewards P)))),
               rewards = take (nat cnt) (sort_key uminus (rewards b @ rewards P)) \<rparr>"
  have b: "length (features b) = length (rewards b)"
    using Cons.prems(4) by simp
  have ne: "1 \<le> cnt \<or> rewards b \<noteq> [] \<or> rewards P \<noteq> []"
    using Cons.prems(5) by auto
  have le: "nat cnt \<le> length (rewards b) + length (rewards P)"
    using Cons.prems(3) by simp
  have step: "update_best_results P cnt (features b) (rewards b) = Inr P1"
    unfolding P1_def
    by (rule update_best_results_eq [OF Cons.prems(1) b Cons.prems(2) le ne])
  have len: "length (features P1) = length (rewards P1)" "length (rewards P1) = nat cnt"
    using Cons.prems(3) by (simp_all add: P1_def)
  have w: "\<forall>b\<in>set bs. length (features b) = length (rewards b)"
    using Cons.prems(4) by simp
  have ne': "1 \<le> cnt \<or> (\<forall>b\<in>set bs. rewards b \<noteq> [])"
    using Cons.prems(5) by auto
  from Cons.IH [OF Cons.prems(1) len w ne']
  obtain P' where P': "fold_best_results cnt P1 bs = Inr P'"
    "length (features P') = nat cnt" "length (rewards P') = nat cnt"
    "mset (rewards P') = mset (take (nat cnt)
        (sort_key uminus (concat (map rewards (rev bs)) @ rewards P1)))"
    by blast
  have "take (nat cnt) (sort_key uminus (concat (map rewards (rev bs)) @ rewards P1))
      = take (nat cnt) (sort_key uminus (concat (map rewards (rev (b # bs))) @ rewards P))"
    by (simp add: top_absorb P1_def)
  with P' step show ?case by simp
qed

lemma mset_concat_rewards:
  assumes "mset bs' = mset bs"
  shows "mset (concat (map rewards bs')) = mset (concat (map rewards bs))"
proof -
  have c: "mset (concat (map rewards xs)) = (\<Sum>b\<in>#mset xs. mset (rewards b))" for xs
    by (induction xs) simp_all
  show ?thesis
    unfolding c assms ..
qed

lemma top_count_sort_key: "top_count k xs = take k (sort_key uminus xs)"
  by (simp add: top_count_def sort_key_uminus)

lemma top_count_mset: "mset xs = mset ys \<Longrightarrow> top_count k xs = top_count k ys"
  unfolding top_count_sort_key
  using sort_key_inj_mset [OF uminus_xreal_inj, of xs ys] by simp

text \<open>
  Claim C3. Start from the initial pool of \<open>count\<close> rows of zeros with the reward
  \<open>-infinity\<close> and fold any finite list of batches into it with \<open>_update_best_results\<close>. The
  pool then still has \<open>count\<close> feature rows and \<open>count\<close> rewards, and the multiset of its
  rewards is that of the \<open>count\<close> largest among all the rewards of the batches and the
  \<open>count\<close> sentinels. Folding the same batches in another order gives the same multiset of
  rewards. (A batch has one reward for each feature row; with \<open>count = 0\<close> the batches must
  not be empty, since \<open>jnp.argpartition\<close> raises on an empty array.)
\<close>

theorem best_results_pool_invariant:
  assumes "0 \<le> cnt"
    and "\<forall>b\<in>set bs. length (features b) = length (rewards b)"
    and "1 \<le> cnt \<or> (\<forall>b\<in>set bs. rewards b \<noteq> [])"
  shows "\<exists>P. fold_best_results cnt (init_best_results (nat cnt) n_cols) bs = Inr P
           \<and> length (features P) = nat cnt \<and> length (rewards P) = nat cnt
           \<and> mset (rewards P) =
               mset (top_count (nat cnt)
                 (concat (map rewards bs) @ replicate (nat cnt) MInf))
           \<and> (\<forall>bs'. mset bs' = mset bs \<longrightarrow>
                 (\<exists>P'. fold_best_results cnt (init_best_results (nat cnt) n_cols) bs' = Inr P'
                    \<and> mset (rewards P') = mset (rewards P)))"
proof -
  let ?I = "init_best_results (nat cnt) n_cols"
  have I: "length (features ?I) = length (rewards ?I)" "length (rewards ?I) = nat cnt"
    by (simp_all add: init_best_results_def)
  have main: "\<exists>P. fold_best_results cnt ?I xs = Inr P
           \<and> length (features P) = nat cnt \<and> length (rewards P) = nat cnt
           \<and> mset (rewards P) =
               mset (top_count (nat cnt) (concat (map rewards bs) @ replicate (nat cnt) MInf))"
    if "mset xs = mset bs" for xs
  proof -
    have "set xs = set bs" using that by (rule mset_eq_setD)
    with assms have "\<forall>b\<in>set xs. length (features b) = length (rewards b)"
      and "1 \<le> cnt \<or> (\<forall>b\<in>set xs. rewards b \<noteq> [])" by simp_all
    from fold_best_results_eq [OF assms(1) I this]
    obtain P where P: "fold_best_results cnt ?I xs = Inr P"
      "length (features P) = nat cnt" "length (rewards P) = nat cnt"
      "mset (rewards P) = mset (take (nat cnt)
          (sort_key uminus (concat (map rewards (rev xs)) @ rewards ?I)))"
      by auto
    have "mset (concat (map rewards (rev xs)) @ rewards ?I)
        = mset (concat (map rewards bs) @ replicate (nat cnt) MInf)"
      using mset_concat_rewards [of "rev xs" bs] that by (simp add: init_best_results_def)
    then have "top_count (nat cnt) (concat (map rewards (rev xs)) @ rewards ?I)
        = top_count (nat cnt) (concat (map rewards bs) @ replicate (nat cnt) MInf)"
      by (rule top_count_mset)
    with P show ?thesis by (auto simp: top_count_sort_key)
  qed
  from main [of bs] obtain P where P: "fold_best_results cnt ?I bs = Inr P"
    "length (features P) = nat cnt" "length (rewards P) = nat cnt"
    "mset (rewards P) =
       mset (top_count (nat cnt) (concat (map rewards bs) @ replicate (nat cnt) MInf))"
    by auto
  moreover have "\<exists>P'. fold_best_results cnt ?I bs' = Inr P' \<and> mset (rewards P') = mset (rewards P)"
    if "mset bs' = mset bs" for bs'
    using main [OF that] P(4) by auto
  ultimately show ?thesis by blast
qed



theorem best_results_pool_invariant_witness:
  "\<exists>P P'.
     fold_best_results 2 (init_best_results (nat 2) 1)
       [\<lparr>features = [[0.1], [0.2]], rewards = [Fin 1, Fin 5]\<rparr>,
        \<lparr>features = [[0.3]], rewards = [Fin 3]\<rparr>] = Inr P
     \<and> fold_best_results 2 (init_best_results (nat 2) 1)
       [\<lparr>features = [[0.3]], rewards = [Fin 3]\<rparr>,
        \<lparr>features = [[0.1], [0.2]], rewards = [Fin 1, Fin 5]\<rparr>] = Inr P'
     \<and> length (features P) = 2 \<and> length (rewards P) = 2
     \<and> mset (rewards P) = {#Fin 5, Fin 3#}
     \<and> mset (rewards P') = mset (rewards P)"
proof -
  let ?b1 = "\<lparr>features = [[0.1], [0.2]], rewards = [Fin 1, Fin 5]\<rparr>"
  let ?b2 = "\<lparr>features = [[0.3 :: real]], rewards = [Fin 3]\<rparr>"
  have h1: "(0::int) \<le> 2" by simp
  have h2: "\<forall>b\<in>set [?b1, ?b2]. length (features b) = length (rewards b)" by simp
  have h3: "(1::int) \<le> 2 \<or> (\<forall>b\<in>set [?b1, ?b2]. rewards b \<noteq> [])" by simp
  have t: "top_count (nat 2) (concat (map rewards [?b1, ?b2]) @ replicate (nat 2) MInf)
         = [Fin 5, Fin 3]"
    by (simp add: top_count_def eval_nat_numeral)
  have p: "mset [?b2, ?b1] = mset [?b1, ?b2]" by simp
  from best_results_pool_invariant [OF h1 h2 h3, of 1] t p show ?thesis
    by (metis One_nat_def Suc_1 mset.simps(1) mset.simps(2) nat_numeral numeral_2_eq_2)
qed

section \<open>The loop of optimize\<close>

lemma random_split_3: "random_split k 3 = [Split k 0, Split k 1, Split k 2]"
  by (simp add: random_split_def eval_nat_numeral upt_rec)

lemma random_split_2: "random_split k 2 = [Split k 0, Split k 1]"
  by (simp add: random_split_def eval_nat_numeral upt_rec)

lemma length_masked [simp]:
  "length (case dm of Some m \<Rightarrow> if p then map (where_mask m) xs else xs | None \<Rightarrow> xs) = length xs"
  by (cases dm) simp_all

lemma one_step_ok:
  assumes score: "\<And>xs. \<exists>rs. score_fn xs = Inr rs \<and> length rs = length xs"
    and cnt: "1 \<le> cnt"
    and inv: "length (features best) = nat cnt" "length (rewards best) = nat cnt"
  shows "\<exists>st' best' b.
      optimization_one_step converter strategy score_fn cnt dm i (st, best, seed, scored)
        = Inr (st', best', Split seed 2, b # scored)
      \<and> update_best_results best cnt (features b) (rewards b) = Inr best'
      \<and> length (features b) = length (rewards b)
      \<and> length (features b) = length (suggest strategy st (Split seed 0))
      \<and> length (features best') = nat cnt \<and> length (rewards best') = nat cnt"
proof -
  define nf where "nf = (case dm of
       Some m \<Rightarrow> if is_padded converter then map (where_mask m) (suggest strategy st (Split seed 0))
                 else suggest strategy st (Split seed 0)
     | None \<Rightarrow> suggest strategy st (Split seed 0))"
  have lnf: "length nf = length (suggest strategy st (Split seed 0))"
    unfolding nf_def by simp
  from score [of nf] obtain rs where rs: "score_fn nf = Inr rs" "length rs = length nf"
    by blast
  define best' where "best' = \<lparr> features = map (\<lambda>i. (nf @ features best) ! i)
                         (take (nat cnt) (argsort (map uminus (rs @ rewards best)))),
           rewards = take (nat cnt) (sort_key uminus (rs @ rewards best)) \<rparr>"
  have u: "update_best_results best cnt nf rs = Inr best'"
    unfolding best'_def
    by (rule update_best_results_eq) (use cnt inv rs in simp_all)
  have l: "length (features best') = nat cnt" "length (rewards best') = nat cnt"
    using inv rs by (simp_all add: best'_def)
  have "optimization_one_step converter strategy score_fn cnt dm i (st, best, seed, scored)
        = Inr (update strategy st nf rs (Split seed 1), best', Split seed 2,
               \<lparr> features = nf, rewards = rs \<rparr> # scored)"
    using rs(1) u unfolding nf_def optimization_one_step_def
    by (cases dm; cases "is_padded converter")
      (simp_all add: random_split_3 Let_def cong: sum.case_cong)
  with u l rs lnf show ?thesis by auto
qed


lemma loop_ok:
  assumes score: "\<And>xs. \<exists>rs. score_fn xs = Inr rs \<and> length rs = length xs"
    and cnt: "1 \<le> cnt"
    and inv: "length (features best) = nat cnt" "length (rewards best) = nat cnt"
  shows "\<exists>st' best' seed' new.
      iterate_steps n i (optimization_one_step converter strategy score_fn cnt dm)
          (st, best, seed, scored)
        = Inr (st', best', seed', new @ scored)
      \<and> length new = n
      \<and> fold_best_results cnt best (rev new) = Inr best'
      \<and> (\<forall>b\<in>set new. length (features b) = length (rewards b))
      \<and> (\<forall>b\<in>set new. \<exists>s k. length (features b) = length (suggest strategy s k))
      \<and> length (features best') = nat cnt \<and> length (rewards best') = nat cnt"
  using inv
proof (induction n arbitrary: i st best seed scored)
  case 0
  then show ?case by simp
next
  case (Suc n)
  from one_step_ok [OF score cnt Suc.prems, of converter strategy dm i st seed scored]
  obtain st1 best1 b where b:
    "optimization_one_step converter strategy score_fn cnt dm i (st, best, seed, scored)
        = Inr (st1, best1, Split seed 2, b # scored)"
    "update_best_results best cnt (features b) (rewards b) = Inr best1"
    "length (features b) = length (rewards b)"
    "length (features b) = length (suggest strategy st (Split seed 0))"
    "length (features best1) = nat cnt" "length (rewards best1) = nat cnt"
    by blast
  from Suc.IH [OF b(5,6), of "i + 1" st1 "Split seed 2" "b # scored"]
  obtain st' best' seed' new where n:
    "iterate_steps n (i + 1) (optimization_one_step converter strategy score_fn cnt dm)
          (st1, best1, Split seed 2, b # scored)
        = Inr (st', best', seed', new @ b # scored)"
    "length new = n"
    "fold_best_results cnt best1 (rev new) = Inr best'"
    "\<forall>b\<in>set new. length (features b) = length (rewards b)"
    "\<forall>b\<in>set new. \<exists>s k. length (features b) = length (suggest strategy s k)"
    "length (features best') = nat cnt" "length (rewards best') = nat cnt"
    by blast
  have 1: "iterate_steps (Suc n) i (optimization_one_step converter strategy score_fn cnt dm)
          (st, best, seed, scored) = Inr (st', best', seed', (new @ [b]) @ scored)"
    using b(1) n(1) by simp
  have 2: "fold_best_results cnt best (rev (new @ [b])) = Inr best'"
    using b(2) n(3) by simp
  have 3: "\<forall>c\<in>set (new @ [b]). length (features c) = length (rewards c)"
    using b(3) n(4) by simp
  have 4: "\<forall>c\<in>set (new @ [b]). \<exists>s k. length (features c) = length (suggest strategy s k)"
    using b(4) n(5) by auto
  have 5: "length (new @ [b]) = Suc n"
    using n(2) by simp
  from 1 2 3 4 5 n(6,7) show ?case by blast
qed

lemma optimize_loop_ok:
  assumes score: "\<And>xs. \<exists>rs. score_fn xs = Inr rs \<and> length rs = length xs"
    and cnt: "1 \<le> cnt"
    and bs: "suggestion_batch_size self \<noteq> 0"
  shows "\<exists>st' best' seed' scored.
      optimize_loop self converter score_fn cnt strategy dm pf pr seed
        = Inr (st', best', seed', scored)
      \<and> length scored = nat (max_evaluations self div suggestion_batch_size self)
      \<and> fold_best_results cnt (init_best_results (nat cnt) (n_columns converter)) (rev scored)
          = Inr best'
      \<and> (\<forall>b\<in>set scored. length (features b) = length (rewards b))
      \<and> (\<forall>b\<in>set scored. \<exists>s k. length (features b) = length (suggest strategy s k))
      \<and> length (features best') = nat cnt \<and> length (rewards best') = nat cnt"
proof -
  have i: "length (features (init_best_results (nat cnt) (n_columns converter))) = nat cnt"
    "length (rewards (init_best_results (nat cnt) (n_columns converter))) = nat cnt"
    by (simp_all add: init_best_results_def)
  from loop_ok [OF score cnt i, of "nat (max_evaluations self div suggestion_batch_size self)"
      0 converter strategy dm
      "init_state strategy (Split seed 0) pf pr" "Split seed 1" "[]"]
  show ?thesis
    using cnt bs
    by (simp add: optimize_loop_def fori_loop_def random_split_2 Let_def)
qed

section \<open>The best candidates\<close>

lemma sequence_Inr: "sequence (map (\<lambda>x. Inr (f x)) xs) = Inr (map f xs)"
  by (induction xs) simp_all

lemma map_nth_upt: "length xs = n \<Longrightarrow> map (\<lambda>i. f (xs ! i)) [0..<n] = map f xs"
  by (auto simp: list_eq_iff_nth_eq)

lemma best_candidates_eq:
  assumes len: "length (features best) = length (rewards best)"
    and conv: "\<And>row. to_parameters converter [row] \<noteq> []"
  shows "best_candidates best converter =
     Inr (map (\<lambda>ind. \<lparr> parameters = hd (to_parameters converter [features best ! ind]),
                        final_measurement = Some [(''acquisition'', rewards best ! ind)] \<rparr>)
            (argsort (map uminus (rewards best))))"
proof -
  define mk where "mk = (\<lambda>ind. \<lparr> parameters = hd (to_parameters converter [features best ! ind]),
                        final_measurement = Some [(''acquisition'', rewards best ! ind)] \<rparr>)"
  define s where "s = argsort (map uminus (rewards best))"
  have c: "(case to_parameters converter [features best ! ind] of
              [] \<Rightarrow> Inl IndexError
            | p # ps \<Rightarrow> Inr \<lparr> parameters = p,
                  final_measurement = Some [(''acquisition'', rewards best ! ind)] \<rparr>)
      = Inr (mk ind)" for ind
    using conv [of "features best ! ind"]
    by (cases "to_parameters converter [features best ! ind]") (simp_all add: mk_def)
  have ls: "length s = length (rewards best)"
    by (simp add: s_def)
  have "best_candidates best converter
      = sequence (map (\<lambda>i. Inr (mk (s ! i))) [0..<length (rewards best)])"
    unfolding best_candidates_def Let_def s_def [symmetric]
    by (simp only: len c if_False simp_thms)
  also have "\<dots> = Inr (map (\<lambda>i. mk (s ! i)) [0..<length (rewards best)])"
    by (rule sequence_Inr)
  also have "map (\<lambda>i. mk (s ! i)) [0..<length (rewards best)] = map mk s"
    by (rule map_nth_upt [OF ls])
  finally show ?thesis
    by (simp only: mk_def s_def)
qed

lemma best_candidates_measurements:
  assumes "best_candidates best converter = Inr trials"
    and "length (features best) = length (rewards best)"
    and "\<And>row. to_parameters converter [row] \<noteq> []"
  shows "map final_measurement trials
       = map (\<lambda>v. Some [(''acquisition'', v)]) (rev (sort (rewards best)))"
proof -
  have "map final_measurement trials
      = map (\<lambda>v. Some [(''acquisition'', v)])
          (map (\<lambda>i. rewards best ! i) (argsort (map uminus (rewards best))))"
    using assms(1) unfolding best_candidates_eq [OF assms(2,3)] by (auto simp: comp_def)
  then show ?thesis
    by (simp only: values_of_argsort sort_key_uminus)
qed

section \<open>The whole run\<close>

lemma prior_data_ok:
  assumes "\<And>xs. \<exists>rs. score_fn xs = Inr rs \<and> length rs = length xs"
  shows "\<exists>pf pr. prior_data converter creation_time score_fn prior_trials = Inr (pf, pr)"
proof (cases prior_trials)
  case None
  then show ?thesis by (simp add: prior_data_def)
next
  case (Some ts)
  show ?thesis
  proof (cases "ts = []")
    case True
    with Some show ?thesis by (simp add: prior_data_def)
  next
    case False
    define fs where "fs = (if is_padded converter
                   then take (length (sort_key creation_time ts))
                          (to_features converter (sort_key creation_time ts))
                          @ map (map (\<lambda>v. 0))
                              (drop (length (sort_key creation_time ts))
                                (to_features converter (sort_key creation_time ts)))
                   else to_features converter (sort_key creation_time ts))"
    from assms [of fs] obtain rs where "score_fn fs = Inr rs" by blast
    with Some False show ?thesis
      by (simp add: prior_data_def Let_def fs_def)
  qed
qed

lemma optimize_unfold:
  assumes "prior_data converter creation_time score_fn prior_trials = Inr (pf, pr)"
    and "optimize_loop self converter score_fn cnt
           (strategy_factory self converter (suggestion_batch_size self))
           (dimension_mask converter) pf pr
           (PRNGKey (case seed0 of None \<Rightarrow> 0 | Some n \<Rightarrow> if n \<noteq> 0 then n else 0))
         = Inr (st, best, sd, scored)"
    and "best_candidates best converter = Inr trials"
  shows "optimize self creation_time clock converter score_fn cnt prior_trials seed0
     = Inr (\<lparr> log_duration = snd clock - fst clock,
               log_evaluations =
                 (max_evaluations self div suggestion_batch_size self)
                   * suggestion_batch_size self,
               log_best_results = best \<rparr>, trials)"
  using assms by (simp add: optimize_def jit_def Let_def)

lemma optimize_ok:
  assumes score: "\<And>xs. \<exists>rs. score_fn xs = Inr rs \<and> length rs = length xs"
    and cnt: "1 \<le> cnt"
    and bs: "suggestion_batch_size self \<noteq> 0"
    and conv: "\<And>row. to_parameters converter [row] \<noteq> []"
  shows "\<exists>best scored entry trials.
      fold_best_results cnt (init_best_results (nat cnt) (n_columns converter)) (rev scored)
          = Inr best
      \<and> length scored = nat (max_evaluations self div suggestion_batch_size self)
      \<and> (\<forall>b\<in>set scored. length (features b) = length (rewards b))
      \<and> (\<forall>b\<in>set scored. \<exists>s k. length (features b)
            = length (suggest (strategy_factory self converter (suggestion_batch_size self)) s k))
      \<and> length (features best) = nat cnt \<and> length (rewards best) = nat cnt
      \<and> best_candidates best converter = Inr trials
      \<and> optimize self creation_time clock converter score_fn cnt prior_trials seed0
          = Inr (entry, trials)
      \<and> log_evaluations entry
          = (max_evaluations self div suggestion_batch_size self) * suggestion_batch_size self"
proof -
  from prior_data_ok [OF score] obtain pf pr
    where p: "prior_data converter creation_time score_fn prior_trials = Inr (pf, pr)"
    by blast
  from optimize_loop_ok [OF score cnt bs]
  obtain st best sd scored where l:
    "optimize_loop self converter score_fn cnt
           (strategy_factory self converter (suggestion_batch_size self))
           (dimension_mask converter) pf pr
           (PRNGKey (case seed0 of None \<Rightarrow> 0 | Some n \<Rightarrow> if n \<noteq> 0 then n else 0))
         = Inr (st, best, sd, scored)"
    "length scored = nat (max_evaluations self div suggestion_batch_size self)"
    "fold_best_results cnt (init_best_results (nat cnt) (n_columns converter)) (rev scored)
          = Inr best"
    "\<forall>b\<in>set scored. length (features b) = length (rewards b)"
    "\<forall>b\<in>set scored. \<exists>s k. length (features b)
            = length (suggest (strategy_factory self converter (suggestion_batch_size self)) s k)"
    "length (features best) = nat cnt" "length (rewards best) = nat cnt"
    by blast
  have len: "length (features best) = length (rewards best)"
    using l(6,7) by simp
  obtain trials where t: "best_candidates best converter = Inr trials"
    using best_candidates_eq [OF len conv] by blast
  note o = optimize_unfold [OF p l(1) t, where clock = clock]
  have e: "log_evaluations \<lparr> log_duration = snd clock - fst clock,
               log_evaluations =
                 (max_evaluations self div suggestion_batch_size self)
                   * suggestion_batch_size self,
               log_best_results = best \<rparr>
      = (max_evaluations self div suggestion_batch_size self) * suggestion_batch_size self"
    by simp
  from l(3) l(2) l(4) l(5) l(6) l(7) t o e show ?thesis
    by blast
qed


lemma sum_list_const:
  "(\<forall>b\<in>set xs. f b = (c::nat)) \<Longrightarrow> sum_list (map f xs) = length xs * c"
  by (induction xs) simp_all




section \<open>The sentinels\<close>

lemma mset_map_nth_subset:
  assumes "distinct idx" and "set idx \<subseteq> {0..<length zs}"
  shows "mset (map (\<lambda>i. zs ! i) idx) \<subseteq># mset zs"
proof -
  have "mset_set (set idx) \<subseteq># mset_set {0..<length zs}"
    by (rule subset_imp_msubset_mset_set [OF assms(2)]) simp
  then have "mset idx \<subseteq># mset [0..<length zs]"
    using assms(1) by (simp add: mset_set_set)
  then have "image_mset (\<lambda>i. zs ! i) (mset idx) \<subseteq># image_mset (\<lambda>i. zs ! i) (mset [0..<length zs])"
    by (rule image_mset_subseteq_mono)
  moreover have "image_mset (\<lambda>i. zs ! i) (mset [0..<length zs]) = mset zs"
    by (simp only: mset_map [symmetric] map_nth)
  ultimately show ?thesis by simp
qed

lemma filter_length_mono:
  assumes "mset xs \<subseteq># mset ys"
  shows "length (filter Q xs) \<le> length (filter Q ys)"
proof -
  have "filter_mset Q (mset xs) \<subseteq># filter_mset Q (mset ys)"
    by (rule multiset_filter_mono [OF assms])
  then have "size (filter_mset Q (mset xs)) \<le> size (filter_mset Q (mset ys))"
    by (rule size_mset_mono)
  then show ?thesis
    by (simp only: mset_filter [symmetric] size_mset)
qed

lemma distinct_argsort [simp]: "distinct (argsort a)"
  by (simp add: argsort_def)

lemma set_argsort [simp]: "set (argsort a) = {0..<length a}"
  by (simp add: argsort_def)

lemma zip_map_nth:
  assumes "length fs = length rs" and "set idx \<subseteq> {0..<length rs}"
  shows "zip (map (\<lambda>i. fs ! i) idx) (map (\<lambda>i. rs ! i) idx) = map (\<lambda>i. zip fs rs ! i) idx"
  using assms by (induction idx) simp_all

text \<open>The rows of a pool that are not the sentinel row.\<close>

lemma update_best_results_pairs:
  assumes "0 \<le> cnt" and "length bf = length br"
    and "length (features P) = length (rewards P)"
    and "nat cnt \<le> length br + length (rewards P)"
    and "1 \<le> cnt \<or> br \<noteq> [] \<or> rewards P \<noteq> []"
    and "update_best_results P cnt bf br = Inr P'"
  shows "mset (zip (features P') (rewards P'))
           \<subseteq># mset (zip bf br) + mset (zip (features P) (rewards P))"
proof -
  let ?s = "take (nat cnt) (argsort (map uminus (br @ rewards P)))"
  have r: "take (nat cnt) (sort_key uminus (br @ rewards P))
         = map (\<lambda>i. (br @ rewards P) ! i) ?s"
    by (simp only: take_map [symmetric] values_of_argsort)
  have P': "features P' = map (\<lambda>i. (bf @ features P) ! i) ?s"
    "rewards P' = map (\<lambda>i. (br @ rewards P) ! i) ?s"
    using update_best_results_eq [OF assms(1-5)] assms(6) r by auto
  have d: "distinct ?s" by simp
  have sub: "set ?s \<subseteq> {0..<length (br @ rewards P)}"
    using set_take_subset [of "nat cnt" "argsort (map uminus (br @ rewards P))"] by simp
  have len: "length (bf @ features P) = length (br @ rewards P)"
    using assms(2,3) by simp
  have sub': "set ?s \<subseteq> {0..<length (zip (bf @ features P) (br @ rewards P))}"
    using sub len by simp
  have "zip (features P') (rewards P')
      = map (\<lambda>i. zip (bf @ features P) (br @ rewards P) ! i) ?s"
    unfolding P' by (rule zip_map_nth [OF len sub])
  then have "mset (zip (features P') (rewards P'))
      \<subseteq># mset (zip (bf @ features P) (br @ rewards P))"
    using mset_map_nth_subset [OF d sub'] by simp
  then show ?thesis
    using assms(2) by simp
qed


lemma fold_best_results_pairs:
  assumes "1 \<le> cnt"
    and "length (features P) = nat cnt" and "length (rewards P) = nat cnt"
    and "\<forall>b\<in>set bs. length (features b) = length (rewards b)"
    and "fold_best_results cnt P bs = Inr P'"
  shows "length (filter Q (zip (features P') (rewards P')))
           \<le> length (filter Q (zip (features P) (rewards P)))
              + sum_list (map (\<lambda>b. length (features b)) bs)"
  using assms(2-5)
proof (induction bs arbitrary: P)
  case Nil
  then show ?case by simp
next
  case (Cons b bs)
  have c0: "0 \<le> cnt" using assms(1) by simp
  have b: "length (features b) = length (rewards b)"
    using Cons.prems(3) by simp
  have lp: "length (features P) = length (rewards P)"
    using Cons.prems(1,2) by simp
  have le: "nat cnt \<le> length (rewards b) + length (rewards P)"
    using Cons.prems(2) by simp
  have ne: "1 \<le> cnt \<or> rewards b \<noteq> [] \<or> rewards P \<noteq> []"
    using assms(1) by simp
  note eq = update_best_results_eq [OF c0 b lp le ne]
  obtain P1 where P1: "update_best_results P cnt (features b) (rewards b) = Inr P1"
    using eq by blast
  have l1: "length (features P1) = nat cnt" "length (rewards P1) = nat cnt"
    using eq P1 Cons.prems(2) by auto
  have w: "\<forall>b\<in>set bs. length (features b) = length (rewards b)"
    using Cons.prems(3) by simp
  have f: "fold_best_results cnt P1 bs = Inr P'"
    using Cons.prems(4) P1 by simp
  have "mset (zip (features P1) (rewards P1))
          \<subseteq># mset (zip (features b) (rewards b) @ zip (features P) (rewards P))"
    using update_best_results_pairs [OF c0 b lp le ne P1] by simp
  then have "length (filter Q (zip (features P1) (rewards P1)))
          \<le> length (filter Q (zip (features b) (rewards b) @ zip (features P) (rewards P)))"
    by (rule filter_length_mono)
  also have "\<dots> \<le> length (features b) + length (filter Q (zip (features P) (rewards P)))"
    using length_filter_le [of Q "zip (features b) (rewards b)"] b by simp
  finally have 1: "length (filter Q (zip (features P1) (rewards P1)))
      \<le> length (features b) + length (filter Q (zip (features P) (rewards P)))" .
  from Cons.IH [OF l1 w f] 1 show ?case by simp
qed

lemma zip_replicate_same: "zip (replicate n a) (replicate n b) = replicate n (a, b)"
  by (induction n) simp_all

lemma filter_length_imp:
  "(\<And>x. P x \<Longrightarrow> Q x) \<Longrightarrow> length (filter P xs) \<le> length (filter Q xs)"
  by (induction xs) auto

lemma sentinels_in_pool:
  assumes "1 \<le> cnt"
    and "\<forall>b\<in>set bs. length (features b) = length (rewards b)"
    and "fold_best_results cnt (init_best_results (nat cnt) n_cols) bs = Inr P"
    and "length (features P) = nat cnt" and "length (rewards P) = nat cnt"
  shows "nat cnt - sum_list (map (\<lambda>b. length (features b)) bs)
           \<le> length (filter (\<lambda>p. p = (replicate n_cols 0, MInf)) (zip (features P) (rewards P)))"
proof -
  let ?Q = "\<lambda>p. p \<noteq> (replicate n_cols (0::real), MInf)"
  let ?I = "init_best_results (nat cnt) n_cols"
  have i: "length (features ?I) = nat cnt" "length (rewards ?I) = nat cnt"
    by (simp_all add: init_best_results_def)
  have "filter ?Q (zip (features ?I) (rewards ?I)) = []"
    by (simp add: init_best_results_def zip_replicate_same)
  with fold_best_results_pairs [OF assms(1) i assms(2,3), of ?Q]
  have "length (filter ?Q (zip (features P) (rewards P)))
          \<le> sum_list (map (\<lambda>b. length (features b)) bs)"
    by simp
  moreover have "length (filter (\<lambda>p. p = (replicate n_cols 0, MInf)) (zip (features P) (rewards P)))
      + length (filter ?Q (zip (features P) (rewards P))) = nat cnt"
    using sum_length_filter_compl [of "\<lambda>p. p = (replicate n_cols 0, MInf)" "zip (features P) (rewards P)"]
      assms(4,5) by simp
  ultimately show ?thesis by linarith
qed

lemma trials_of_pairs:
  assumes len: "length (features best) = length (rewards best)"
    and conv: "\<And>row. to_parameters converter [row] \<noteq> []"
    and t: "best_candidates best converter = Inr trials"
  shows "mset trials
     = image_mset (\<lambda>p. \<lparr> parameters = hd (to_parameters converter [fst p]),
                          final_measurement = Some [(''acquisition'', snd p)] \<rparr>)
         (mset (zip (features best) (rewards best)))"
proof -
  let ?g = "\<lambda>p. \<lparr> parameters = hd (to_parameters converter [fst p]),
                   final_measurement = Some [(''acquisition'', snd p)] \<rparr>"
  let ?Z = "zip (features best) (rewards best)"
  let ?s = "argsort (map uminus (rewards best))"
  have "trials = map (\<lambda>ind. \<lparr> parameters = hd (to_parameters converter [features best ! ind]),
                        final_measurement = Some [(''acquisition'', rewards best ! ind)] \<rparr>) ?s"
    using t unfolding best_candidates_eq [OF len conv] by simp
  also have "\<dots> = map (\<lambda>i. ?g (?Z ! i)) ?s"
    using len by (intro map_cong) simp_all
  finally have "mset trials = image_mset (\<lambda>i. ?g (?Z ! i)) (mset ?s)"
    by simp
  also have "mset ?s = mset [0..<length ?Z]"
    using len by (simp add: argsort_def)
  also have "image_mset (\<lambda>i. ?g (?Z ! i)) (mset [0..<length ?Z]) = mset (map ?g (map (\<lambda>i. ?Z ! i) [0..<length ?Z]))"
    by (simp only: mset_map image_mset.compositionality comp_def)
  finally show ?thesis
    by (simp only: map_nth mset_map)
qed


lemma sentinel_trials:
  assumes len: "length (features best) = length (rewards best)"
    and conv: "\<And>row. to_parameters converter [row] \<noteq> []"
    and t: "best_candidates best converter = Inr trials"
  shows "length (filter (\<lambda>p. p = (z, MInf)) (zip (features best) (rewards best)))
       \<le> length (filter (\<lambda>t. t = \<lparr> parameters = hd (to_parameters converter [z]),
                                    final_measurement = Some [(''acquisition'', MInf)] \<rparr>) trials)"
    and "\<forall>t\<in>set trials. final_measurement t \<noteq> None"
proof -
  let ?g = "\<lambda>p. \<lparr> parameters = hd (to_parameters converter [fst p]),
                   final_measurement = Some [(''acquisition'', snd p)] \<rparr>"
  let ?Z = "zip (features best) (rewards best)"
  let ?S = "\<lparr> parameters = hd (to_parameters converter [z]),
              final_measurement = Some [(''acquisition'', MInf)] \<rparr>"
  have m: "mset trials = mset (map ?g ?Z)"
    using trials_of_pairs [OF len conv t] by simp
  have "length (filter (\<lambda>t. t = ?S) trials) = size (filter_mset (\<lambda>t. t = ?S) (mset trials))"
    by (simp only: mset_filter [symmetric] size_mset)
  also have "\<dots> = length (filter (\<lambda>t. t = ?S) (map ?g ?Z))"
    by (simp only: m mset_filter [symmetric] size_mset)
  also have "\<dots> = length (filter (\<lambda>p. ?g p = ?S) ?Z)"
    by (simp add: filter_map comp_def)
  finally have e: "length (filter (\<lambda>t. t = ?S) trials) = length (filter (\<lambda>p. ?g p = ?S) ?Z)" .
  have "length (filter (\<lambda>p. p = (z, MInf)) ?Z) \<le> length (filter (\<lambda>p. ?g p = ?S) ?Z)"
    by (rule filter_length_imp) simp
  with e show "length (filter (\<lambda>p. p = (z, MInf)) ?Z) \<le> length (filter (\<lambda>t. t = ?S) trials)"
    by simp
  have "set trials = set (map ?g ?Z)"
    using m by (rule mset_eq_setD)
  then show "\<forall>t\<in>set trials. final_measurement t \<noteq> None"
    by auto
qed



lemma filter_length_all:
  assumes "length (filter P xs) = length xs"
  shows "\<forall>x\<in>set xs. P x"
proof (rule ccontr)
  assume "\<not> (\<forall>x\<in>set xs. P x)"
  then obtain x where "x \<in> set xs" "\<not> P x" by blast
  then have "length (filter P xs) < length xs" by (rule length_filter_less)
  with assms show False by simp
qed

text \<open>
  Claim C10. For every \<open>count\<close> of at least one (and a batch size that is not zero, a
  score function that returns one reward for each row, a converter that returns the
  parameters of a row), \<open>optimize\<close> returns exactly \<open>count\<close> trials, all of them completed
  with a measurement. When every suggestion has \<open>suggestion_batch_size\<close> rows, at least
  \<open>count\<close> minus the number of rows scored in the loop of these trials are the sentinel:
  the parameters of the row of zeros, with the \<open>acquisition\<close> measurement \<open>-infinity\<close>. When
  the loop makes no step, all the \<open>count\<close> trials are the sentinel.
\<close>

theorem optimize_returns_count_trials:
  assumes score: "\<And>xs. \<exists>rs. score_fn xs = Inr rs \<and> length rs = length xs"
    and cnt: "1 \<le> cnt"
    and bs: "suggestion_batch_size self \<noteq> 0"
    and conv: "\<And>row. to_parameters converter [row] \<noteq> []"
  shows "\<exists>entry trials.
      optimize self creation_time clock converter score_fn cnt prior_trials seed0
        = Inr (entry, trials)
      \<and> length trials = nat cnt
      \<and> (\<forall>t\<in>set trials. final_measurement t \<noteq> None)
      \<and> ((\<forall>s k. length (suggest (strategy_factory self converter (suggestion_batch_size self)) s k)
                  = nat (suggestion_batch_size self)) \<longrightarrow>
            nat cnt - nat (max_evaluations self div suggestion_batch_size self)
                        * nat (suggestion_batch_size self)
              \<le> length (filter (\<lambda>t. t =
                    \<lparr> parameters = hd (to_parameters converter [replicate (n_columns converter) 0]),
                      final_measurement = Some [(''acquisition'', MInf)] \<rparr>) trials))
      \<and> (max_evaluations self div suggestion_batch_size self \<le> 0 \<longrightarrow>
            trials = replicate (nat cnt)
              \<lparr> parameters = hd (to_parameters converter [replicate (n_columns converter) 0]),
                final_measurement = Some [(''acquisition'', MInf)] \<rparr>)"
proof -
  let ?S = "\<lparr> parameters = hd (to_parameters converter [replicate (n_columns converter) 0]),
              final_measurement = Some [(''acquisition'', MInf)] \<rparr>"
  let ?n = "nat (max_evaluations self div suggestion_batch_size self)"
  let ?strategy = "strategy_factory self converter (suggestion_batch_size self)"
  from optimize_ok [OF score cnt bs conv, of creation_time clock prior_trials seed0]
  obtain best scored entry trials where o:
    "fold_best_results cnt (init_best_results (nat cnt) (n_columns converter)) (rev scored)
          = Inr best"
    "length scored = ?n"
    "\<forall>b\<in>set scored. length (features b) = length (rewards b)"
    "\<forall>b\<in>set scored. \<exists>s k. length (features b) = length (suggest ?strategy s k)"
    "length (features best) = nat cnt" "length (rewards best) = nat cnt"
    "best_candidates best converter = Inr trials"
    "optimize self creation_time clock converter score_fn cnt prior_trials seed0
          = Inr (entry, trials)"
    by blast
  have len: "length (features best) = length (rewards best)"
    using o(5,6) by simp
  have w: "\<forall>b\<in>set (rev scored). length (features b) = length (rewards b)"
    using o(3) by simp
  have "mset trials = image_mset (\<lambda>p. \<lparr> parameters = hd (to_parameters converter [fst p]),
                          final_measurement = Some [(''acquisition'', snd p)] \<rparr>)
         (mset (zip (features best) (rewards best)))"
    by (rule trials_of_pairs [OF len conv o(7)])
  then have "size (mset trials) = size (mset (zip (features best) (rewards best)))"
    by simp
  then have n: "length trials = nat cnt"
    using o(5,6) by simp
  note st = sentinel_trials [OF len conv o(7)]
  have "sum_list (map (\<lambda>b. length (features b)) (rev scored))
      = sum_list (map (\<lambda>b. length (features b)) scored)"
    by (simp only: rev_map [symmetric] sum_list_rev)
  with sentinels_in_pool [OF cnt w o(1,5,6)] st(1) [of "replicate (n_columns converter) 0"]
  have pool: "nat cnt - sum_list (map (\<lambda>b. length (features b)) scored)
      \<le> length (filter (\<lambda>t. t = ?S) trials)"
    by linarith
  have a: "nat cnt - ?n * nat (suggestion_batch_size self)
              \<le> length (filter (\<lambda>t. t = ?S) trials)"
    if "\<forall>s k. length (suggest ?strategy s k) = nat (suggestion_batch_size self)"
  proof -
    have "\<forall>b\<in>set scored. length (features b) = nat (suggestion_batch_size self)"
      using o(4) that by auto
    from sum_list_const [OF this] o(2) pool show ?thesis by simp
  qed
  have b: "trials = replicate (nat cnt) ?S"
    if "max_evaluations self div suggestion_batch_size self \<le> 0"
  proof -
    have "scored = []" using o(2) that by simp
    with pool n have "length trials \<le> length (filter (\<lambda>t. t = ?S) trials)" by simp
    then have "length (filter (\<lambda>t. t = ?S) trials) = length trials"
      using length_filter_le [of "\<lambda>t. t = ?S" trials] by simp
    then have "\<forall>t\<in>set trials. t = ?S"
      by (rule filter_length_all)
    then have "replicate (length trials) ?S = trials"
      by (rule replicate_length_same)
    with n show ?thesis by simp
  qed
  show ?thesis
  proof (intro exI conjI impI)
    show "optimize self creation_time clock converter score_fn cnt prior_trials seed0
        = Inr (entry, trials)" by (rule o(8))
    show "length trials = nat cnt" by (rule n)
    show "\<forall>t\<in>set trials. final_measurement t \<noteq> None" by (rule st(2))
    show "nat cnt - ?n * nat (suggestion_batch_size self)
              \<le> length (filter (\<lambda>t. t = ?S) trials)"
      if "\<forall>s k. length (suggest ?strategy s k) = nat (suggestion_batch_size self)"
      using that by (rule a)
    show "trials = replicate (nat cnt) ?S"
      if "max_evaluations self div suggestion_batch_size self \<le> 0"
      using that by (rule b)
  qed
qed



theorem optimize_returns_count_trials_witness:
  "\<exists>entry trials.
      optimize
        \<lparr>strategy_factory = (\<lambda>c b. \<lparr>init_state = (\<lambda>k pf pr. ()), suggest = (\<lambda>s k. replicate 25 [0.5]),
          update = (\<lambda>s f r k. ())\<rparr>),
        suggestion_batch_size = 25, max_evaluations = 3, jit_loop = True\<rparr>
        (\<lambda>t. 0) (0, 1)
        \<lparr>is_padded = False, to_features = (\<lambda>ts :: unit list. []),
        to_parameters = (\<lambda>rows. rows),
        output_specs = [\<lparr>spec_type = CONTINUOUS, num_dimensions = 1\<rparr>], n_columns = 1\<rparr>
        (\<lambda>xs. Inr (map (\<lambda>r. Fin (sum_list r)) xs)) 2 None None = Inr (entry, trials)
      \<and> length trials = 2
      \<and> trials = replicate 2
           \<lparr>parameters = [0], final_measurement = Some [(''acquisition'', MInf)]\<rparr>"
proof -
  let ?self = "\<lparr>strategy_factory = (\<lambda>c b. \<lparr>init_state = (\<lambda>k pf pr. ()), suggest = (\<lambda>s k. replicate 25 [0.5]),
          update = (\<lambda>s f r k. ())\<rparr>),
        suggestion_batch_size = 25, max_evaluations = 3, jit_loop = True\<rparr>"
  let ?conv = "\<lparr>is_padded = False, to_features = (\<lambda>ts :: unit list. []),
        to_parameters = (\<lambda>rows. rows),
        output_specs = [\<lparr>spec_type = CONTINUOUS, num_dimensions = 1\<rparr>], n_columns = 1\<rparr>"
  let ?score = "(\<lambda>xs. Inr (map (\<lambda>r. Fin (sum_list r)) xs)) :: real list list \<Rightarrow> error + xreal list"
  have h1: "\<And>xs. \<exists>rs. ?score xs = Inr rs \<and> length rs = length xs" by simp
  have h2: "(1::int) \<le> 2" by simp
  have h3: "suggestion_batch_size ?self \<noteq> 0" by simp
  have h4: "\<And>row. to_parameters ?conv [row] \<noteq> []" by simp
  from optimize_returns_count_trials [OF h1 h2 h3 h4, of "\<lambda>t. 0" "(0, 1)" None None]
  show ?thesis by simp
qed

section \<open>Determinism of optimize\<close>



section \<open>The seeds of QEI and QUCB\<close>



section \<open>Builders that are not built\<close>

lemma build_result:
  "snd (snd (GPBanditAcquisitionBuilder_build b h p predictive feats labels specs oim fim))
     = None
   \<Longrightarrow> attr_built
         (fst (snd (GPBanditAcquisitionBuilder_build b h p predictive feats labels specs oim fim)))
       \<and> attr_acquisition_problem
           (fst (snd (GPBanditAcquisitionBuilder_build b h p predictive feats labels specs oim fim)))
           = Some (length h)
       \<and> attr_acquisition_on_array
           (fst (snd (GPBanditAcquisitionBuilder_build b h p predictive feats labels specs oim fim)))
           \<noteq> None
       \<and> attr_predict_on_array
           (fst (snd (GPBanditAcquisitionBuilder_build b h p predictive feats labels specs oim fim)))
           \<noteq> None
       \<and> attr_sample_on_array
           (fst (snd (GPBanditAcquisitionBuilder_build b h p predictive feats labels specs oim fim)))
           \<noteq> None
       \<and> (use_trust_region
             (fst (snd (GPBanditAcquisitionBuilder_build b h p predictive feats labels specs oim fim)))
           \<longrightarrow> attr_tr
             (fst (snd (GPBanditAcquisitionBuilder_build b h p predictive feats labels specs oim fim)))
             \<noteq> None)"
  by (auto simp: GPBanditAcquisitionBuilder_build_def Let_def deepcopy_def
      split: sum.splits Features.splits if_splits)

lemma build_failed:
  "snd (snd (GPBanditAcquisitionBuilder_build b h p predictive feats labels specs oim fim))
     \<noteq> None
   \<Longrightarrow> attr_built
         (fst (snd (GPBanditAcquisitionBuilder_build b h p predictive feats labels specs oim fim)))
       = attr_built b"
  by (auto simp: GPBanditAcquisitionBuilder_build_def Let_def deepcopy_def
      split: sum.splits Features.splits if_splits)

lemma m_build_result:
  "snd (snd (GPBanditMultiAcquisitionBuilder_build b h p predictive feats labels specs)) = None
   \<Longrightarrow> m_attr_built
         (fst (snd (GPBanditMultiAcquisitionBuilder_build b h p predictive feats labels specs)))
       \<and> m_attr_acquisition_problem
           (fst (snd (GPBanditMultiAcquisitionBuilder_build b h p predictive feats labels specs)))
           = Some (length h)
       \<and> m_attr_acquisition_on_array
           (fst (snd (GPBanditMultiAcquisitionBuilder_build b h p predictive feats labels specs)))
           \<noteq> None
       \<and> m_attr_predict_on_array
           (fst (snd (GPBanditMultiAcquisitionBuilder_build b h p predictive feats labels specs)))
           \<noteq> None
       \<and> m_attr_sample_on_array
           (fst (snd (GPBanditMultiAcquisitionBuilder_build b h p predictive feats labels specs)))
           \<noteq> None
       \<and> (m_use_trust_region
             (fst (snd (GPBanditMultiAcquisitionBuilder_build b h p predictive feats labels specs)))
           \<longrightarrow> m_attr_tr
             (fst (snd (GPBanditMultiAcquisitionBuilder_build b h p predictive feats labels specs)))
             \<noteq> None)"
  by (auto simp: GPBanditMultiAcquisitionBuilder_build_def Let_def deepcopy_def
      split: sum.splits Features.splits if_splits)

lemma m_build_failed:
  "snd (snd (GPBanditMultiAcquisitionBuilder_build b h p predictive feats labels specs)) \<noteq> None
   \<Longrightarrow> m_attr_built
         (fst (snd (GPBanditMultiAcquisitionBuilder_build b h p predictive feats labels specs)))
       = m_attr_built b"
  by (auto simp: GPBanditMultiAcquisitionBuilder_build_def Let_def deepcopy_def
      split: sum.splits Features.splits if_splits)


lemma accessors_not_built:
  "\<not> attr_built b \<Longrightarrow>
     acquisition_problem b = Inl not_built_error
     \<and> acquisition_on_array b = Inl not_built_error
     \<and> predict_on_array b = Inl not_built_error
     \<and> sample_on_array b = Inl not_built_error
     \<and> metadata_dict b = Inl not_built_error"
  by (simp add: acquisition_problem_def acquisition_on_array_def predict_on_array_def
      sample_on_array_def metadata_dict_def)

lemma m_accessors_not_built:
  "\<not> m_attr_built b \<Longrightarrow>
     m_acquisition_problem b = Inl not_built_error
     \<and> m_acquisition_on_array b = Inl not_built_error
     \<and> m_predict_on_array b = Inl not_built_error
     \<and> m_sample_on_array b = Inl not_built_error
     \<and> m_metadata_dict b = Inl not_built_error"
  by (simp add: m_acquisition_problem_def m_acquisition_on_array_def m_predict_on_array_def
      m_sample_on_array_def m_metadata_dict_def)

lemma accessors_built:
  assumes "snd (snd (GPBanditAcquisitionBuilder_build b h p predictive feats labels specs oim fim)) = None"
  shows "\<not> isl (acquisition_problem (fst (snd (GPBanditAcquisitionBuilder_build b h p predictive feats labels specs oim fim))))
     \<and> \<not> isl (acquisition_on_array (fst (snd (GPBanditAcquisitionBuilder_build b h p predictive feats labels specs oim fim))))
     \<and> \<not> isl (predict_on_array (fst (snd (GPBanditAcquisitionBuilder_build b h p predictive feats labels specs oim fim))))
     \<and> \<not> isl (sample_on_array (fst (snd (GPBanditAcquisitionBuilder_build b h p predictive feats labels specs oim fim))))
     \<and> \<not> isl (metadata_dict (fst (snd (GPBanditAcquisitionBuilder_build b h p predictive feats labels specs oim fim))))"
  using build_result [OF assms]
  by (auto simp: acquisition_problem_def acquisition_on_array_def predict_on_array_def
      sample_on_array_def metadata_dict_def)

lemma m_accessors_built:
  assumes "snd (snd (GPBanditMultiAcquisitionBuilder_build mb h p predictive feats labels specs)) = None"
  shows "\<not> isl (m_acquisition_problem (fst (snd (GPBanditMultiAcquisitionBuilder_build mb h p predictive feats labels specs))))
     \<and> \<not> isl (m_acquisition_on_array (fst (snd (GPBanditMultiAcquisitionBuilder_build mb h p predictive feats labels specs))))
     \<and> \<not> isl (m_predict_on_array (fst (snd (GPBanditMultiAcquisitionBuilder_build mb h p predictive feats labels specs))))
     \<and> \<not> isl (m_sample_on_array (fst (snd (GPBanditMultiAcquisitionBuilder_build mb h p predictive feats labels specs))))
     \<and> \<not> isl (m_metadata_dict (fst (snd (GPBanditMultiAcquisitionBuilder_build mb h p predictive feats labels specs))))"
  using m_build_result [OF assms]
  by (auto simp: m_acquisition_problem_def m_acquisition_on_array_def m_predict_on_array_def
      m_sample_on_array_def m_metadata_dict_def)

text \<open>
  Claim C7. For both builders: as long as \<open>_built\<close> is false, which it is for a new
  builder and stays after a call of \<open>build\<close> that raises, each of \<open>acquisition_problem\<close>,
  \<open>acquisition_on_array\<close>, \<open>predict_on_array\<close>, \<open>sample_on_array\<close> and \<open>metadata_dict\<close> raises
  the \<open>ValueError\<close> that says \<open>Acquisition must be built first via build().\<close>; after a call
  of \<open>build\<close> that returns, none of them raises.
\<close>

theorem accessors_raise_until_built:
  "\<not> attr_built (GPBanditAcquisitionBuilder_new fn use_tr)
   \<and> \<not> m_attr_built (GPBanditMultiAcquisitionBuilder_new fns use_tr)
   \<and> (\<not> attr_built b \<longrightarrow>
         acquisition_problem b = Inl not_built_error
         \<and> acquisition_on_array b = Inl not_built_error
         \<and> predict_on_array b = Inl not_built_error
         \<and> sample_on_array b = Inl not_built_error
         \<and> metadata_dict b = Inl not_built_error)
   \<and> (\<not> m_attr_built mb \<longrightarrow>
         m_acquisition_problem mb = Inl not_built_error
         \<and> m_acquisition_on_array mb = Inl not_built_error
         \<and> m_predict_on_array mb = Inl not_built_error
         \<and> m_sample_on_array mb = Inl not_built_error
         \<and> m_metadata_dict mb = Inl not_built_error)
   \<and> (snd (snd (GPBanditAcquisitionBuilder_build b h p predictive feats labels specs oim fim)) \<noteq> None \<longrightarrow>
         attr_built (fst (snd (GPBanditAcquisitionBuilder_build b h p predictive feats labels specs oim fim))) = attr_built b)
   \<and> (snd (snd (GPBanditMultiAcquisitionBuilder_build mb h p predictive feats labels specs)) \<noteq> None \<longrightarrow>
         m_attr_built (fst (snd (GPBanditMultiAcquisitionBuilder_build mb h p predictive feats labels specs))) = m_attr_built mb)
   \<and> (snd (snd (GPBanditAcquisitionBuilder_build b h p predictive feats labels specs oim fim)) = None \<longrightarrow>
         \<not> isl (acquisition_problem (fst (snd (GPBanditAcquisitionBuilder_build b h p predictive feats labels specs oim fim))))
         \<and> \<not> isl (acquisition_on_array (fst (snd (GPBanditAcquisitionBuilder_build b h p predictive feats labels specs oim fim))))
         \<and> \<not> isl (predict_on_array (fst (snd (GPBanditAcquisitionBuilder_build b h p predictive feats labels specs oim fim))))
         \<and> \<not> isl (sample_on_array (fst (snd (GPBanditAcquisitionBuilder_build b h p predictive feats labels specs oim fim))))
         \<and> \<not> isl (metadata_dict (fst (snd (GPBanditAcquisitionBuilder_build b h p predictive feats labels specs oim fim)))))
   \<and> (snd (snd (GPBanditMultiAcquisitionBuilder_build mb h p predictive feats labels specs)) = None \<longrightarrow>
         \<not> isl (m_acquisition_problem (fst (snd (GPBanditMultiAcquisitionBuilder_build mb h p predictive feats labels specs))))
         \<and> \<not> isl (m_acquisition_on_array (fst (snd (GPBanditMultiAcquisitionBuilder_build mb h p predictive feats labels specs))))
         \<and> \<not> isl (m_predict_on_array (fst (snd (GPBanditMultiAcquisitionBuilder_build mb h p predictive feats labels specs))))
         \<and> \<not> isl (m_sample_on_array (fst (snd (GPBanditMultiAcquisitionBuilder_build mb h p predictive feats labels specs))))
         \<and> \<not> isl (m_metadata_dict (fst (snd (GPBanditMultiAcquisitionBuilder_build mb h p predictive feats labels specs)))))"
proof (intro conjI impI)
  show "\<not> attr_built (GPBanditAcquisitionBuilder_new fn use_tr)"
    by (simp add: GPBanditAcquisitionBuilder_new_def)
  show "\<not> m_attr_built (GPBanditMultiAcquisitionBuilder_new fns use_tr)"
    by (simp add: GPBanditMultiAcquisitionBuilder_new_def)
qed (use accessors_not_built [of b] m_accessors_not_built [of mb]
      build_failed [of b h p predictive feats labels specs oim fim]
      m_build_failed [of mb h p predictive feats labels specs]
      accessors_built [of b h p predictive feats labels specs oim fim]
      m_accessors_built [of mb h p predictive feats labels specs] in blast)+


theorem accessors_raise_until_built_witness:
  "acquisition_on_array (GPBanditAcquisitionBuilder_new (UCB_call 1.8) True) = Inl not_built_error
   \<and> \<not> isl (acquisition_on_array (fst (snd (GPBanditAcquisitionBuilder_build
          (GPBanditAcquisitionBuilder_new (UCB_call 1.8) True)
          [\<lparr>search_space = (), metric_information =
            [\<lparr>metric_name = ''objective'', metric_goal = MINIMIZE\<rparr>],
          problem_metadata = ()\<rparr>] 0
          (\<lambda>xs. \<lparr>dist_mean = [1], dist_stddev = [0],
                 dist_sample = (\<lambda>n k kw. Inr [])\<rparr>)
          (Array [[0.5]]) [1] [\<lparr>spec_type = CONTINUOUS, num_dimensions = 1\<rparr>] None None))))
   \<and> m_metadata_dict (fst (snd (GPBanditMultiAcquisitionBuilder_build
          (GPBanditMultiAcquisitionBuilder_new [(''ucb'', UCB_call 1.8)] True)
          [\<lparr>search_space = (), metric_information =
            [\<lparr>metric_name = ''objective'', metric_goal = MINIMIZE\<rparr>],
          problem_metadata = ()\<rparr>] 0
          (\<lambda>xs. \<lparr>dist_mean = [1], dist_stddev = [0],
                 dist_sample = (\<lambda>n k kw. Inr [])\<rparr>)
          (ContinuousAndCategorical
            \<lparr>continuous = [[0.5]], continuous_dim = 1,
             categorical = [[1]], categorical_dim = 1\<rparr>) [1] [\<lparr>spec_type = CONTINUOUS, num_dimensions = 1\<rparr>]))) = Inl not_built_error"
proof -
  let ?b = "(GPBanditAcquisitionBuilder_new (UCB_call 1.8) True)"
  let ?mb = "(GPBanditMultiAcquisitionBuilder_new [(''ucb'', UCB_call 1.8)] True)"
  let ?B = "(GPBanditAcquisitionBuilder_build
          (GPBanditAcquisitionBuilder_new (UCB_call 1.8) True)
          [\<lparr>search_space = (), metric_information =
            [\<lparr>metric_name = ''objective'', metric_goal = MINIMIZE\<rparr>],
          problem_metadata = ()\<rparr>] 0
          (\<lambda>xs. \<lparr>dist_mean = [1], dist_stddev = [0],
                 dist_sample = (\<lambda>n k kw. Inr [])\<rparr>)
          (Array [[0.5]]) [1] [\<lparr>spec_type = CONTINUOUS, num_dimensions = 1\<rparr>] None None)"
  let ?M = "(GPBanditMultiAcquisitionBuilder_build
          (GPBanditMultiAcquisitionBuilder_new [(''ucb'', UCB_call 1.8)] True)
          [\<lparr>search_space = (), metric_information =
            [\<lparr>metric_name = ''objective'', metric_goal = MINIMIZE\<rparr>],
          problem_metadata = ()\<rparr>] 0
          (\<lambda>xs. \<lparr>dist_mean = [1], dist_stddev = [0],
                 dist_sample = (\<lambda>n k kw. Inr [])\<rparr>)
          (ContinuousAndCategorical
            \<lparr>continuous = [[0.5]], continuous_dim = 1,
             categorical = [[1]], categorical_dim = 1\<rparr>) [1] [\<lparr>spec_type = CONTINUOUS, num_dimensions = 1\<rparr>])"
  have 1: "\<not> attr_built ?b"
    by (simp add: GPBanditAcquisitionBuilder_new_def)
  have 2: "snd (snd ?B) = None"
    by (simp add: GPBanditAcquisitionBuilder_build_def GPBanditAcquisitionBuilder_new_def Let_def)
  have 3: "snd (snd ?M) \<noteq> None"
    by (simp add: GPBanditMultiAcquisitionBuilder_build_def
        GPBanditMultiAcquisitionBuilder_new_def Let_def)
  have 4: "\<not> m_attr_built ?mb"
    by (simp add: GPBanditMultiAcquisitionBuilder_new_def)
  note T = accessors_raise_until_built
  from 1 T [where b = ?b] have a: "acquisition_on_array ?b = Inl not_built_error"
    by blast
  from 2 T [where b = ?b and h = "[\<lparr>search_space = (), metric_information =
            [\<lparr>metric_name = ''objective'', metric_goal = MINIMIZE\<rparr>],
          problem_metadata = ()\<rparr>]" and p = 0 and predictive = "(\<lambda>xs. \<lparr>dist_mean = [1], dist_stddev = [0],
                 dist_sample = (\<lambda>n k kw. Inr [])\<rparr>)"
      and feats = "Array [[0.5]]" and labels = "[1]" and specs = "[\<lparr>spec_type = CONTINUOUS, num_dimensions = 1\<rparr>]"
      and oim = None and fim = None]
  have b: "\<not> isl (acquisition_on_array (fst (snd ?B)))"
    by blast
  from 3 4 T [where mb = ?mb and h = "[\<lparr>search_space = (), metric_information =
            [\<lparr>metric_name = ''objective'', metric_goal = MINIMIZE\<rparr>],
          problem_metadata = ()\<rparr>]" and p = 0 and predictive = "(\<lambda>xs. \<lparr>dist_mean = [1], dist_stddev = [0],
                 dist_sample = (\<lambda>n k kw. Inr [])\<rparr>)"
      and feats = "(ContinuousAndCategorical
            \<lparr>continuous = [[0.5]], continuous_dim = 1,
             categorical = [[1]], categorical_dim = 1\<rparr>)" and labels = "[1]" and specs = "[\<lparr>spec_type = CONTINUOUS, num_dimensions = 1\<rparr>]"]
  have "\<not> m_attr_built (fst (snd ?M))"
    by blast
  with T [where mb = "fst (snd ?M)"] have c: "m_metadata_dict (fst (snd ?M)) = Inl not_built_error"
    by blast
  from a b c show ?thesis by blast
qed

section \<open>The frame of build\<close>

lemma TrustRegionWithCategorical_init_defaults [simp]:
  "TrustRegionWithCategorical_init c (1 / 5) 5 \<noteq> Inl e"
proof -
  have "0 < real (continuous_dim c + categorical_dim c) + 1"
    by (rule add_nonneg_pos) simp_all
  then have "real (continuous_dim c + categorical_dim c) + 1 \<noteq> 0"
    by simp
  then show ?thesis
    by (simp add: TrustRegionWithCategorical_init_def Let_def)
qed

lemma build_succeeds:
  "snd (snd (GPBanditAcquisitionBuilder_build b h p predictive feats labels specs oim fim)) = None"
  by (auto simp: GPBanditAcquisitionBuilder_build_def Let_def
      split: sum.splits Features.splits)

lemma build_heap:
  "fst (GPBanditAcquisitionBuilder_build b h p predictive feats labels specs oim fim)
     = h @ [(h ! p)\<lparr>metric_information :=
              [\<lparr>metric_name = ''acquisition'', metric_goal = MAXIMIZE\<rparr>]\<rparr>]"
  by (auto simp: GPBanditAcquisitionBuilder_build_def Let_def deepcopy_def
      split: sum.splits Features.splits)

lemma m_build_heap:
  "snd (snd (GPBanditMultiAcquisitionBuilder_build mb h p predictive feats labels specs)) = None \<Longrightarrow>
   fst (GPBanditMultiAcquisitionBuilder_build mb h p predictive feats labels specs)
     = h @ [(h ! p)\<lparr>metric_information :=
              map (\<lambda>name. \<lparr>metric_name = name, metric_goal = MAXIMIZE\<rparr>)
                (map fst (acquisition_fns mb))\<rparr>]"
  by (auto simp: GPBanditMultiAcquisitionBuilder_build_def Let_def deepcopy_def
      split: sum.splits Features.splits if_splits)

lemma m_build_heap_failed:
  "snd (snd (GPBanditMultiAcquisitionBuilder_build mb h p predictive feats labels specs)) \<noteq> None \<Longrightarrow> fst (GPBanditMultiAcquisitionBuilder_build mb h p predictive feats labels specs) = h"
  by (auto simp: GPBanditMultiAcquisitionBuilder_build_def Let_def deepcopy_def
      split: sum.splits Features.splits if_splits)


text \<open>
  Claim C8. \<open>GPBanditAcquisitionBuilder.build\<close> always returns; it leaves every cell of the
  caller's heap as it was, the caller's problem statement among them, and allocates one
  new cell: the reference that \<open>acquisition_problem\<close> returns. That cell holds the
  caller's problem statement with its metric information replaced by the single metric
  \<open>acquisition\<close> with the goal \<open>MAXIMIZE\<close>. The same holds for
  \<open>GPBanditMultiAcquisitionBuilder.build\<close> when it returns, with one \<open>MAXIMIZE\<close> metric for
  each name of \<open>acquisition_fns\<close>, in their order; when it raises, the heap is as it was.
\<close>

theorem build_frame:
  "snd (snd (GPBanditAcquisitionBuilder_build b h p predictive feats labels specs oim fim)) = None
   \<and> take (length h) (fst (GPBanditAcquisitionBuilder_build b h p predictive feats labels specs oim fim)) = h
   \<and> (p < length h \<longrightarrow> fst (GPBanditAcquisitionBuilder_build b h p predictive feats labels specs oim fim) ! p = h ! p)
   \<and> length (fst (GPBanditAcquisitionBuilder_build b h p predictive feats labels specs oim fim)) = Suc (length h)
   \<and> acquisition_problem (fst (snd (GPBanditAcquisitionBuilder_build b h p predictive feats labels specs oim fim))) = Inr (length h)
   \<and> fst (GPBanditAcquisitionBuilder_build b h p predictive feats labels specs oim fim) ! length h
       = (h ! p)\<lparr>metric_information :=
           [\<lparr>metric_name = ''acquisition'', metric_goal = MAXIMIZE\<rparr>]\<rparr>
   \<and> (snd (snd (GPBanditMultiAcquisitionBuilder_build mb h p predictive feats labels specs)) = None \<longrightarrow>
         take (length h) (fst (GPBanditMultiAcquisitionBuilder_build mb h p predictive feats labels specs)) = h
         \<and> (p < length h \<longrightarrow> fst (GPBanditMultiAcquisitionBuilder_build mb h p predictive feats labels specs) ! p = h ! p)
         \<and> length (fst (GPBanditMultiAcquisitionBuilder_build mb h p predictive feats labels specs)) = Suc (length h)
         \<and> m_acquisition_problem (fst (snd (GPBanditMultiAcquisitionBuilder_build mb h p predictive feats labels specs))) = Inr (length h)
         \<and> fst (GPBanditMultiAcquisitionBuilder_build mb h p predictive feats labels specs) ! length h
             = (h ! p)\<lparr>metric_information :=
                 map (\<lambda>name. \<lparr>metric_name = name, metric_goal = MAXIMIZE\<rparr>)
                   (map fst (acquisition_fns mb))\<rparr>)
   \<and> (snd (snd (GPBanditMultiAcquisitionBuilder_build mb h p predictive feats labels specs)) \<noteq> None \<longrightarrow> fst (GPBanditMultiAcquisitionBuilder_build mb h p predictive feats labels specs) = h)"
proof -
  note s = build_succeeds [of b h p predictive feats labels specs oim fim]
  note r = build_result [OF s]
  have 1: "acquisition_problem (fst (snd (GPBanditAcquisitionBuilder_build b h p predictive feats labels specs oim fim))) = Inr (length h)"
    using r by (simp add: acquisition_problem_def)
  have 2: "m_acquisition_problem (fst (snd (GPBanditMultiAcquisitionBuilder_build mb h p predictive feats labels specs))) = Inr (length h)"
    if "snd (snd (GPBanditMultiAcquisitionBuilder_build mb h p predictive feats labels specs)) = None"
    using m_build_result [OF that] by (simp add: m_acquisition_problem_def)
  show ?thesis
    using s 1 2 m_build_heap [of mb h p predictive feats labels specs]
      m_build_heap_failed [of mb h p predictive feats labels specs]
    by (simp add: build_heap nth_append)
qed

theorem build_frame_witness:
  "fst (GPBanditAcquisitionBuilder_build
          (GPBanditAcquisitionBuilder_new (UCB_call 1.8) True)
          [\<lparr>search_space = (), metric_information =
            [\<lparr>metric_name = ''objective'', metric_goal = MINIMIZE\<rparr>],
          problem_metadata = ()\<rparr>] 0
          (\<lambda>xs. \<lparr>dist_mean = [1], dist_stddev = [0],
                 dist_sample = (\<lambda>n k kw. Inr [])\<rparr>)
          (Array [[0.5]]) [1] [\<lparr>spec_type = CONTINUOUS, num_dimensions = 1\<rparr>] None None)
     = [\<lparr>search_space = (), metric_information =
            [\<lparr>metric_name = ''objective'', metric_goal = MINIMIZE\<rparr>],
          problem_metadata = ()\<rparr>,
        \<lparr>search_space = (), metric_information =
            [\<lparr>metric_name = ''acquisition'', metric_goal = MAXIMIZE\<rparr>],
          problem_metadata = ()\<rparr>]
   \<and> acquisition_problem (fst (snd (GPBanditAcquisitionBuilder_build
          (GPBanditAcquisitionBuilder_new (UCB_call 1.8) True)
          [\<lparr>search_space = (), metric_information =
            [\<lparr>metric_name = ''objective'', metric_goal = MINIMIZE\<rparr>],
          problem_metadata = ()\<rparr>] 0
          (\<lambda>xs. \<lparr>dist_mean = [1], dist_stddev = [0],
                 dist_sample = (\<lambda>n k kw. Inr [])\<rparr>)
          (Array [[0.5]]) [1] [\<lparr>spec_type = CONTINUOUS, num_dimensions = 1\<rparr>] None None))) = Inr 1
   \<and> fst (GPBanditMultiAcquisitionBuilder_build
          (GPBanditMultiAcquisitionBuilder_new
             [(''ucb'', UCB_call 1.8), (''hvs'', HyperVolumeScalarization_call 1)] True)
          [\<lparr>search_space = (), metric_information =
            [\<lparr>metric_name = ''objective'', metric_goal = MINIMIZE\<rparr>],
          problem_metadata = ()\<rparr>] 0
          (\<lambda>xs. \<lparr>dist_mean = [1], dist_stddev = [0],
                 dist_sample = (\<lambda>n k kw. Inr [])\<rparr>)
          (Array [[0.5]]) [1] [\<lparr>spec_type = CONTINUOUS, num_dimensions = 1\<rparr>]) ! 0 = \<lparr>search_space = (), metric_information =
            [\<lparr>metric_name = ''objective'', metric_goal = MINIMIZE\<rparr>],
          problem_metadata = ()\<rparr>
   \<and> fst (GPBanditMultiAcquisitionBuilder_build
          (GPBanditMultiAcquisitionBuilder_new
             [(''ucb'', UCB_call 1.8), (''hvs'', HyperVolumeScalarization_call 1)] True)
          [\<lparr>search_space = (), metric_information =
            [\<lparr>metric_name = ''objective'', metric_goal = MINIMIZE\<rparr>],
          problem_metadata = ()\<rparr>] 0
          (\<lambda>xs. \<lparr>dist_mean = [1], dist_stddev = [0],
                 dist_sample = (\<lambda>n k kw. Inr [])\<rparr>)
          (Array [[0.5]]) [1] [\<lparr>spec_type = CONTINUOUS, num_dimensions = 1\<rparr>]) ! 1
     = \<lparr>search_space = (), metric_information =
            [\<lparr>metric_name = ''ucb'', metric_goal = MAXIMIZE\<rparr>,
             \<lparr>metric_name = ''hvs'', metric_goal = MAXIMIZE\<rparr>],
          problem_metadata = ()\<rparr>"
proof -
  let ?h = "[\<lparr>search_space = (), metric_information =
            [\<lparr>metric_name = ''objective'', metric_goal = MINIMIZE\<rparr>],
          problem_metadata = ()\<rparr>]"
  let ?B = "(GPBanditAcquisitionBuilder_build
          (GPBanditAcquisitionBuilder_new (UCB_call 1.8) True)
          [\<lparr>search_space = (), metric_information =
            [\<lparr>metric_name = ''objective'', metric_goal = MINIMIZE\<rparr>],
          problem_metadata = ()\<rparr>] 0
          (\<lambda>xs. \<lparr>dist_mean = [1], dist_stddev = [0],
                 dist_sample = (\<lambda>n k kw. Inr [])\<rparr>)
          (Array [[0.5]]) [1] [\<lparr>spec_type = CONTINUOUS, num_dimensions = 1\<rparr>] None None)"
  let ?M = "(GPBanditMultiAcquisitionBuilder_build
          (GPBanditMultiAcquisitionBuilder_new
             [(''ucb'', UCB_call 1.8), (''hvs'', HyperVolumeScalarization_call 1)] True)
          [\<lparr>search_space = (), metric_information =
            [\<lparr>metric_name = ''objective'', metric_goal = MINIMIZE\<rparr>],
          problem_metadata = ()\<rparr>] 0
          (\<lambda>xs. \<lparr>dist_mean = [1], dist_stddev = [0],
                 dist_sample = (\<lambda>n k kw. Inr [])\<rparr>)
          (Array [[0.5]]) [1] [\<lparr>spec_type = CONTINUOUS, num_dimensions = 1\<rparr>])"
  have m: "snd (snd ?M) = None"
    by (simp add: GPBanditMultiAcquisitionBuilder_build_def
        GPBanditMultiAcquisitionBuilder_new_def Let_def)
  have f: "acquisition_fns (GPBanditMultiAcquisitionBuilder_new
             [(''ucb'', UCB_call 1.8), (''hvs'', HyperVolumeScalarization_call 1)] True)
         = [(''ucb'', UCB_call 1.8), (''hvs'', HyperVolumeScalarization_call 1)]"
    by (simp add: GPBanditMultiAcquisitionBuilder_new_def)
  note T = build_frame [where h = ?h and p = 0 and b = "(GPBanditAcquisitionBuilder_new (UCB_call 1.8) True)" and mb = "(GPBanditMultiAcquisitionBuilder_new
             [(''ucb'', UCB_call 1.8), (''hvs'', HyperVolumeScalarization_call 1)] True)"
      and predictive = "(\<lambda>xs. \<lparr>dist_mean = [1], dist_stddev = [0],
                 dist_sample = (\<lambda>n k kw. Inr [])\<rparr>)" and feats = "Array [[0.5]]" and labels = "[1]"
      and specs = "[\<lparr>spec_type = CONTINUOUS, num_dimensions = 1\<rparr>]" and oim = None and fim = None]
  have len: "length (fst ?B) = Suc (length ?h)"
    using T by blast
  have tk: "take (length ?h) (fst ?B) = ?h"
    using T by blast
  have lst: "fst ?B ! length ?h
       = (?h ! 0)\<lparr>metric_information :=
           [\<lparr>metric_name = ''acquisition'', metric_goal = MAXIMIZE\<rparr>]\<rparr>"
    using T by blast
  have B: "fst ?B = [\<lparr>search_space = (), metric_information =
            [\<lparr>metric_name = ''objective'', metric_goal = MINIMIZE\<rparr>],
          problem_metadata = ()\<rparr>,
        \<lparr>search_space = (), metric_information =
            [\<lparr>metric_name = ''acquisition'', metric_goal = MAXIMIZE\<rparr>],
          problem_metadata = ()\<rparr>]"
  proof -
    obtain x y where xy: "fst ?B = [x, y]"
      using len by (cases "fst ?B"; cases "tl (fst ?B)"; cases "tl (tl (fst ?B))") auto
    with tk lst show ?thesis by simp
  qed
  have a: "acquisition_problem (fst (snd ?B)) = Inr 1"
    using T by simp
  have c: "fst ?M ! 0 = \<lparr>search_space = (), metric_information =
            [\<lparr>metric_name = ''objective'', metric_goal = MINIMIZE\<rparr>],
          problem_metadata = ()\<rparr>"
    using T m by simp
  have d: "fst ?M ! 1
     = \<lparr>search_space = (), metric_information =
            [\<lparr>metric_name = ''ucb'', metric_goal = MAXIMIZE\<rparr>,
             \<lparr>metric_name = ''hvs'', metric_goal = MAXIMIZE\<rparr>],
          problem_metadata = ()\<rparr>"
    using T m f by simp
  from B a c d show ?thesis by blast
qed


section \<open>The trust-region gate of the acquisition\<close>

lemma jnp_where_same_length:
  assumes "length c = length x" and "length y = length x"
  shows "jnp_where c x y
     = Inr (map (\<lambda>(ci, xi, yi). if ci then xi else yi) (zip c (zip x y)))"
proof (cases "length x = 1")
  case True
  with assms show ?thesis
    by (simp add: jnp_where_def broadcast_to_def)
next
  case False
  with assms show ?thesis
    by (simp add: jnp_where_def broadcast_to_def)
qed

lemma gate_map2:
  "length d = length a \<Longrightarrow>
   map (\<lambda>(ci, xi, yi). if ci then xi else yi) (zip (map P d) (zip a (map Q d)))
     = map2 (\<lambda>di ai. if P di then ai else Q di) d a"
  by (induction d a rule: list_induct2) simp_all

lemma fin_minus_antimono: "d1 \<le> d2 \<Longrightarrow> fin_minus c d2 \<le> fin_minus c d1"
  by (cases d1; cases d2) simp_all

lemma acquisition_on_array_fn_gate:
  assumes "fn (predictive xs) (Some feats) (Some labels) = Inr a"
  shows "(\<not> use_tr \<longrightarrow>
           acquisition_on_array_fn predictive fn use_tr tr feats labels xs = Inr a)
     \<and> (use_tr \<longrightarrow> tr = Some t \<longrightarrow>
          (0.5 \<le> tr_trust_radius t \<longrightarrow>
             acquisition_on_array_fn predictive fn use_tr tr feats labels xs = Inr a)
        \<and> (tr_trust_radius t < 0.5 \<longrightarrow>
             (\<forall>e. tr_min_linf_distance t xs = Inl e \<longrightarrow>
                acquisition_on_array_fn predictive fn use_tr tr feats labels xs = Inl e)
           \<and> (\<forall>d. tr_min_linf_distance t xs = Inr d \<and> length d = length a \<longrightarrow>
                acquisition_on_array_fn predictive fn use_tr tr feats labels xs
                  = Inr (map2 (\<lambda>di ai. if di \<le> Fin (tr_trust_radius t) then ai
                                        else fin_minus (- 1000000000000) di) d a))))"
  using assms
  by (auto simp: acquisition_on_array_fn_def Let_def jnp_where_same_length gate_map2)

lemma build_acquisition:
  "attr_acquisition_on_array (fst (snd (GPBanditAcquisitionBuilder_build b h p predictive feats labels specs oim fim)))
     = Some (acquisition_on_array_fn predictive (acquisition_fn b) (use_trust_region b)
               (attr_tr (fst (snd (GPBanditAcquisitionBuilder_build b h p predictive feats labels specs oim fim)))) feats labels)
   \<and> use_trust_region (fst (snd (GPBanditAcquisitionBuilder_build b h p predictive feats labels specs oim fim))) = use_trust_region b
   \<and> attr_built (fst (snd (GPBanditAcquisitionBuilder_build b h p predictive feats labels specs oim fim)))
   \<and> (use_trust_region b \<longrightarrow>
        (\<exists>t. attr_tr (fst (snd (GPBanditAcquisitionBuilder_build b h p predictive feats labels specs oim fim))) = Some t
           \<and> (\<forall>A. feats = Array A \<longrightarrow> t = TR (TrustRegion_init A specs fim oim))))"
  by (auto simp: GPBanditAcquisitionBuilder_build_def Let_def
      split: sum.splits Features.splits)


text \<open>
  Claim C1. After \<open>GPBanditAcquisitionBuilder.build\<close>, let the acquisition function give
  the values \<open>a\<close> on the predictive distribution of the batch \<open>xs\<close>. Without trust-region
  gating, or with a trust radius of at least \<open>0.5\<close>, \<open>acquisition_on_array(xs)\<close> is \<open>a\<close>. With
  gating and a trust radius below \<open>0.5\<close> (the radius that \<open>metadata_dict\<close> reports), and one
  distance for each value, the row \<open>i\<close> gets \<open>a[i]\<close> when its \<open>min_linf_distance\<close> is at most
  the radius and \<open>-1e12 - distance\<close> otherwise; an exception of \<open>min_linf_distance\<close> is
  raised by \<open>acquisition_on_array\<close> too. The penalty does not increase with the distance.
\<close>

theorem acquisition_on_array_gating:
  "(acquisition_fn b (predictive xs) (Some feats) (Some labels) = Inr a \<longrightarrow>
      (\<exists>acq. acquisition_on_array (fst (snd (GPBanditAcquisitionBuilder_build b h p predictive feats labels specs oim fim))) = Inr acq
         \<and> (\<not> use_trust_region b \<longrightarrow> acq xs = Inr a)
         \<and> (use_trust_region b \<longrightarrow>
              (\<exists>t. attr_tr (fst (snd (GPBanditAcquisitionBuilder_build b h p predictive feats labels specs oim fim))) = Some t
                 \<and> (\<forall>A. feats = Array A \<longrightarrow> t = TR (TrustRegion_init A specs fim oim))
                 \<and> metadata_dict (fst (snd (GPBanditAcquisitionBuilder_build b h p predictive feats labels specs oim fim)))
                     = Inr [(''trust_radius'', tr_trust_radius t)]
                 \<and> (0.5 \<le> tr_trust_radius t \<longrightarrow> acq xs = Inr a)
                 \<and> (tr_trust_radius t < 0.5 \<longrightarrow>
                      (\<forall>e. tr_min_linf_distance t xs = Inl e \<longrightarrow> acq xs = Inl e)
                    \<and> (\<forall>d. tr_min_linf_distance t xs = Inr d \<and> length d = length a \<longrightarrow>
                          acq xs
                            = Inr (map2 (\<lambda>di ai. if di \<le> Fin (tr_trust_radius t) then ai
                                                  else fin_minus (- 1000000000000) di)
                                     d a)))))))
   \<and> (d1 \<le> d2 \<longrightarrow> fin_minus c d2 \<le> fin_minus c d1)"
proof (intro conjI impI)
  assume a: "acquisition_fn b (predictive xs) (Some feats) (Some labels) = Inr a"
  let ?b' = "fst (snd (GPBanditAcquisitionBuilder_build b h p predictive feats labels specs oim fim))"
  let ?acq = "acquisition_on_array_fn predictive (acquisition_fn b) (use_trust_region b)
                (attr_tr ?b') feats labels"
  note ba = build_acquisition [of b h p predictive feats labels specs oim fim]
  have acc: "acquisition_on_array ?b' = Inr ?acq"
    using ba by (simp add: acquisition_on_array_def)
  have 1: "\<not> use_trust_region b \<longrightarrow> ?acq xs = Inr a"
    using acquisition_on_array_fn_gate [where fn = "acquisition_fn b" and predictive = predictive
        and xs = xs and feats = feats and labels = labels and a = a, OF a]
    by blast
  have 2: "\<exists>t. attr_tr ?b' = Some t
                 \<and> (\<forall>A. feats = Array A \<longrightarrow> t = TR (TrustRegion_init A specs fim oim))
                 \<and> metadata_dict ?b' = Inr [(''trust_radius'', tr_trust_radius t)]
                 \<and> (0.5 \<le> tr_trust_radius t \<longrightarrow> ?acq xs = Inr a)
                 \<and> (tr_trust_radius t < 0.5 \<longrightarrow>
                      (\<forall>e. tr_min_linf_distance t xs = Inl e \<longrightarrow> ?acq xs = Inl e)
                    \<and> (\<forall>d. tr_min_linf_distance t xs = Inr d \<and> length d = length a \<longrightarrow>
                          ?acq xs
                            = Inr (map2 (\<lambda>di ai. if di \<le> Fin (tr_trust_radius t) then ai
                                                  else fin_minus (- 1000000000000) di)
                                     d a)))"
    if u: "use_trust_region b"
  proof -
    from ba u obtain t where t: "attr_tr ?b' = Some t"
      "\<forall>A. feats = Array A \<longrightarrow> t = TR (TrustRegion_init A specs fim oim)"
      by blast
    have md: "metadata_dict ?b' = Inr [(''trust_radius'', tr_trust_radius t)]"
      using ba u t(1) by (simp add: metadata_dict_def)
    note g = acquisition_on_array_fn_gate [where fn = "acquisition_fn b"
        and predictive = predictive and xs = xs and feats = feats and labels = labels
        and a = a and use_tr = "use_trust_region b" and tr = "attr_tr ?b'" and t = t, OF a]
    from g u t(1) have g': "(0.5 \<le> tr_trust_radius t \<longrightarrow> ?acq xs = Inr a)
        \<and> (tr_trust_radius t < 0.5 \<longrightarrow>
              (\<forall>e. tr_min_linf_distance t xs = Inl e \<longrightarrow> ?acq xs = Inl e)
            \<and> (\<forall>d. tr_min_linf_distance t xs = Inr d \<and> length d = length a \<longrightarrow>
                  ?acq xs
                    = Inr (map2 (\<lambda>di ai. if di \<le> Fin (tr_trust_radius t) then ai
                                          else fin_minus (- 1000000000000) di)
                             d a)))"
      by blast
    from t md g' show ?thesis by blast
  qed
  from acc 1 2 show "\<exists>acq. acquisition_on_array ?b' = Inr acq
         \<and> (\<not> use_trust_region b \<longrightarrow> acq xs = Inr a)
         \<and> (use_trust_region b \<longrightarrow>
              (\<exists>t. attr_tr ?b' = Some t
                 \<and> (\<forall>A. feats = Array A \<longrightarrow> t = TR (TrustRegion_init A specs fim oim))
                 \<and> metadata_dict ?b' = Inr [(''trust_radius'', tr_trust_radius t)]
                 \<and> (0.5 \<le> tr_trust_radius t \<longrightarrow> acq xs = Inr a)
                 \<and> (tr_trust_radius t < 0.5 \<longrightarrow>
                      (\<forall>e. tr_min_linf_distance t xs = Inl e \<longrightarrow> acq xs = Inl e)
                    \<and> (\<forall>d. tr_min_linf_distance t xs = Inr d \<and> length d = length a \<longrightarrow>
                          acq xs
                            = Inr (map2 (\<lambda>di ai. if di \<le> Fin (tr_trust_radius t) then ai
                                                  else fin_minus (- 1000000000000) di)
                                     d a)))))"
    by blast
next
  assume "d1 \<le> d2"
  then show "fin_minus c d2 \<le> fin_minus c d1"
    by (rule fin_minus_antimono)
qed

theorem acquisition_on_array_gating_witness:
  "\<exists>acq. acquisition_on_array (fst (snd (GPBanditAcquisitionBuilder_build
          (GPBanditAcquisitionBuilder_new (UCB_call 1.8) True)
          [\<lparr>search_space = (), metric_information =
            [\<lparr>metric_name = ''objective'', metric_goal = MINIMIZE\<rparr>],
          problem_metadata = ()\<rparr>] 0
          (\<lambda>xs. \<lparr>dist_mean = [1, 2], dist_stddev = [0, 0],
                 dist_sample = (\<lambda>n k kw. Inr [])\<rparr>)
          (Array [[0.5]]) [1] [\<lparr>spec_type = CONTINUOUS, num_dimensions = 1\<rparr>] None None))) = Inr acq
     \<and> acq (Array [[0.5], [0.9]]) = Inr [Fin 1, Fin (- 1000000000000 - 0.4)]"
proof -
  let ?B = "(GPBanditAcquisitionBuilder_build
          (GPBanditAcquisitionBuilder_new (UCB_call 1.8) True)
          [\<lparr>search_space = (), metric_information =
            [\<lparr>metric_name = ''objective'', metric_goal = MINIMIZE\<rparr>],
          problem_metadata = ()\<rparr>] 0
          (\<lambda>xs. \<lparr>dist_mean = [1, 2], dist_stddev = [0, 0],
                 dist_sample = (\<lambda>n k kw. Inr [])\<rparr>)
          (Array [[0.5]]) [1] [\<lparr>spec_type = CONTINUOUS, num_dimensions = 1\<rparr>] None None)"
  let ?xs = "Array [[0.5], [0.9]]"
  let ?t = "TR (TrustRegion_init [[0.5]] [\<lparr>spec_type = CONTINUOUS, num_dimensions = 1\<rparr>] None None)"
  have u: "use_trust_region (GPBanditAcquisitionBuilder_new (UCB_call 1.8) True)"
    and f: "acquisition_fn (GPBanditAcquisitionBuilder_new (UCB_call 1.8) True) = UCB_call 1.8"
    by (simp_all add: GPBanditAcquisitionBuilder_new_def)
  have a: "acquisition_fn (GPBanditAcquisitionBuilder_new (UCB_call 1.8) True) ((\<lambda>xs. \<lparr>dist_mean = [1, 2], dist_stddev = [0, 0],
                 dist_sample = (\<lambda>n k kw. Inr [])\<rparr>) ?xs) (Some (Array [[0.5]])) (Some [1])
         = Inr [Fin 1, Fin 2]"
    by (simp add: GPBanditAcquisitionBuilder_new_def UCB_call_def)
  have r: "tr_trust_radius ?t = 0.23"
    by (simp add: compute_trust_radius_eq)
  have d: "tr_min_linf_distance ?t ?xs = Inr [Fin 0, Fin 0.4]"
    by (simp add: min_linf_distance_def TrustRegion_init_def compute_trust_radius_eq Let_def)
  note th = acquisition_on_array_gating [where b = "(GPBanditAcquisitionBuilder_new (UCB_call 1.8) True)" and predictive = "(\<lambda>xs. \<lparr>dist_mean = [1, 2], dist_stddev = [0, 0],
                 dist_sample = (\<lambda>n k kw. Inr [])\<rparr>)" and xs = ?xs
      and feats = "Array [[0.5]]" and labels = "[1]" and a = "[Fin 1, Fin 2]"
      and h = "[\<lparr>search_space = (), metric_information =
            [\<lparr>metric_name = ''objective'', metric_goal = MINIMIZE\<rparr>],
          problem_metadata = ()\<rparr>]" and p = 0 and specs = "[\<lparr>spec_type = CONTINUOUS, num_dimensions = 1\<rparr>]" and oim = None and fim = None,
      THEN conjunct1, THEN mp, OF a]
  from th obtain acq where acq: "acquisition_on_array (fst (snd ?B)) = Inr acq"
    and gate: "use_trust_region (GPBanditAcquisitionBuilder_new (UCB_call 1.8) True) \<longrightarrow>
      (\<exists>t. attr_tr (fst (snd ?B)) = Some t
         \<and> (\<forall>A. Array [[0.5]] = Array A \<longrightarrow> t = TR (TrustRegion_init A [\<lparr>spec_type = CONTINUOUS, num_dimensions = 1\<rparr>] None None))
         \<and> metadata_dict (fst (snd ?B)) = Inr [(''trust_radius'', tr_trust_radius t)]
         \<and> (0.5 \<le> tr_trust_radius t \<longrightarrow> acq ?xs = Inr [Fin 1, Fin 2])
         \<and> (tr_trust_radius t < 0.5 \<longrightarrow>
              (\<forall>e. tr_min_linf_distance t ?xs = Inl e \<longrightarrow> acq ?xs = Inl e)
            \<and> (\<forall>d. tr_min_linf_distance t ?xs = Inr d \<and> length d = length [Fin 1, Fin 2] \<longrightarrow>
                 acq ?xs = Inr (map2 (\<lambda>di ai. if di \<le> Fin (tr_trust_radius t) then ai
                                          else fin_minus (- 1000000000000) di)
                                 d [Fin 1, Fin 2]))))"
    by (elim exE conjE) (rule that)
  from gate [THEN mp, OF u] obtain t
    where t: "\<forall>A. Array [[0.5]] = Array A \<longrightarrow> t = TR (TrustRegion_init A [\<lparr>spec_type = CONTINUOUS, num_dimensions = 1\<rparr>] None None)"
    and g: "tr_trust_radius t < 0.5 \<longrightarrow>
              (\<forall>e. tr_min_linf_distance t ?xs = Inl e \<longrightarrow> acq ?xs = Inl e)
            \<and> (\<forall>d. tr_min_linf_distance t ?xs = Inr d \<and> length d = length [Fin 1, Fin 2] \<longrightarrow>
                 acq ?xs = Inr (map2 (\<lambda>di ai. if di \<le> Fin (tr_trust_radius t) then ai
                                          else fin_minus (- 1000000000000) di)
                                 d [Fin 1, Fin 2]))"
    by (elim exE conjE) (rule that)
  from t [THEN spec, THEN mp, OF refl] have tt: "t = ?t" .
  have lt: "tr_trust_radius t < 0.5"
    unfolding tt r by simp
  have dd: "tr_min_linf_distance t ?xs = Inr [Fin 0, Fin 0.4]
      \<and> length [Fin 0, Fin 0.4] = length [Fin 1, Fin 2 :: xreal]"
    unfolding tt d by simp
  note res = g [THEN mp, OF lt, THEN conjunct2, THEN spec, THEN mp, OF dd]
  have "acq ?xs = Inr [Fin 1, Fin (- 1000000000000 - 0.4)]"
    unfolding res tt r by simp
  with acq show ?thesis by (intro exI conjI)
qed

end
